theory Spec2Isabelle
  imports Complex_Main "HOL-Library.Sublist"
begin

section \<open>Library functions the SDK calls\<close>

text \<open>
  Go strings are byte sequences: \<^typ>\<open>string\<close>. The few functions of the Go standard
  library that the SDK calls on strings are written out here; the ones whose behaviour
  depends on data outside the program (the clock, the network, the JSON decoder) are
  fields of the \<open>world\<close> record further down.
\<close>

subsection \<open>fmt: decimal rendering of an int (the verb \<open>%d\<close>)\<close>

definition digit_char :: "nat \<Rightarrow> char" where
  "digit_char d = char_of (48 + d)"

fun nat_decimal :: "nat \<Rightarrow> string" where
  "nat_decimal n = (if n < 10 then [digit_char n] else nat_decimal (n div 10) @ [digit_char (n mod 10)])"

declare nat_decimal.simps [simp del]

definition Sprintf_d :: "int \<Rightarrow> string" where
  "Sprintf_d i = (if i < 0 then CHR ''-'' # nat_decimal (nat (- i)) else nat_decimal (nat i))"

subsection \<open>strconv.Atoi\<close>

definition is_digit :: "char \<Rightarrow> bool" where
  "is_digit c = (c \<in> set ''0123456789'')"

definition digit_value :: "char \<Rightarrow> nat" where
  "digit_value c = of_char c - 48"

definition decimal_value :: "string \<Rightarrow> int" where
  "decimal_value ds = foldl (\<lambda>n c. 10 * n + int (digit_value c)) 0 ds"

text \<open>
  \<open>strconv.Atoi\<close> on a 64-bit platform: an optional sign, then one or more decimal
  digits, and the value must fit in an int64. \<open>None\<close> stands for a non-nil error
  (syntax or range).
\<close>

definition strip_sign :: "string \<Rightarrow> bool \<times> string" where
  "strip_sign s =
     (case s of
        [] \<Rightarrow> (False, [])
      | c # r \<Rightarrow> if c = CHR ''-'' then (True, r) else if c = CHR ''+'' then (False, r) else (False, s))"

definition Atoi :: "string \<Rightarrow> int option" where
  "Atoi s =
     (let neg = fst (strip_sign s); ds = snd (strip_sign s) in
      if ds = [] \<or> \<not> list_all is_digit ds then None
      else
        let v = (if neg then - decimal_value ds else decimal_value ds) in
        if v < - (2 ^ 63) \<or> 2 ^ 63 - 1 < v then None else Some v)"

subsection \<open>strings.Index, strings.LastIndex, strings.TrimSpace\<close>

fun Index_from :: "nat \<Rightarrow> string \<Rightarrow> string \<Rightarrow> int" where
  "Index_from i [] sep = (if sep = [] then int i else - 1)"
| "Index_from i (c # s) sep = (if prefix sep (c # s) then int i else Index_from (Suc i) s sep)"

definition Index :: "string \<Rightarrow> string \<Rightarrow> int" where
  "Index s sep = Index_from 0 s sep"

fun LastIndex_from :: "nat \<Rightarrow> int \<Rightarrow> string \<Rightarrow> string \<Rightarrow> int" where
  "LastIndex_from i found [] sep = (if sep = [] then int i else found)"
| "LastIndex_from i found (c # s) sep =
     LastIndex_from (Suc i) (if prefix sep (c # s) then int i else found) s sep"

definition LastIndex :: "string \<Rightarrow> string \<Rightarrow> int" where
  "LastIndex s sep = LastIndex_from 0 (- 1) s sep"

text \<open>
  \<open>strings.TrimSpace\<close> on ASCII input: the white space of Go's \<open>unicode.IsSpace\<close> below
  U+0080 is tab, line feed, vertical tab, form feed, carriage return and space. (The
  two-byte encodings of U+0085, U+00A0 and the other Unicode spaces are left alone here.)
\<close>

definition isSpace :: "char \<Rightarrow> bool" where
  "isSpace c = (of_char c \<in> {9, 10, 11, 12, 13, 32 :: nat})"

definition TrimSpace :: "string \<Rightarrow> string" where
  "TrimSpace s = rev (dropWhile isSpace (rev (dropWhile isSpace s)))"

subsection \<open>net/http headers\<close>

text \<open>
  A header set maps a header name to its value. \<open>Get\<close> gives the empty string for a
  name that is absent, \<open>Set\<close> replaces the value of a name. Names are used as the
  source writes them.
\<close>

type_synonym Header = "string \<rightharpoonup> string"

definition Header_Get :: "Header \<Rightarrow> string \<Rightarrow> string" where
  "Header_Get h k = (case h k of None \<Rightarrow> [] | Some v \<Rightarrow> v)"

definition Header_Set :: "Header \<Rightarrow> string \<Rightarrow> string \<Rightarrow> Header" where
  "Header_Set h k v = h(k \<mapsto> v)"

section \<open>errors.go\<close>

type_synonym cause = string

datatype error =
    EntrolyticsError (Code: string) (Message: string) (StatusCode: int)
  | AuthenticationError (AuthMessage: string)
  | RateLimitError (RateMessage: string) (RetryAfter: int)
  | NetworkError (NetMessage: string) (Err: cause)

definition ErrAPIKeyRequired :: error where
  "ErrAPIKeyRequired = EntrolyticsError ''api_key_required'' ''API key is required'' 0"

definition ErrWebsiteIDRequired :: error where
  "ErrWebsiteIDRequired = EntrolyticsError ''website_id_required'' ''website ID is required'' 0"

definition ErrEventNameRequired :: error where
  "ErrEventNameRequired = EntrolyticsError ''event_name_required'' ''event name is required'' 0"

definition ErrURLRequired :: error where
  "ErrURLRequired = EntrolyticsError ''url_required'' ''URL is required'' 0"

definition ErrUserIDRequired :: error where
  "ErrUserIDRequired = EntrolyticsError ''user_id_required'' ''user ID is required'' 0"

definition ErrVitalMetricRequired :: error where
  "ErrVitalMetricRequired =
     EntrolyticsError ''vital_metric_required''
       ''vital metric type is required (LCP, INP, CLS, TTFB, or FCP)'' 0"

definition ErrVitalRatingRequired :: error where
  "ErrVitalRatingRequired =
     EntrolyticsError ''vital_rating_required''
       ''vital rating is required (good, needs-improvement, or poor)'' 0"

definition ErrFormIDRequired :: error where
  "ErrFormIDRequired = EntrolyticsError ''form_id_required'' ''form ID is required'' 0"

definition ErrFormEventTypeRequired :: error where
  "ErrFormEventTypeRequired =
     EntrolyticsError ''form_event_type_required'' ''form event type is required'' 0"

definition ErrURLPathRequired :: error where
  "ErrURLPathRequired = EntrolyticsError ''url_path_required'' ''URL path is required'' 0"

definition ErrDeployIDRequired :: error where
  "ErrDeployIDRequired = EntrolyticsError ''deploy_id_required'' ''deployment ID is required'' 0"

section \<open>The response classifier\<close>

text \<open>
  An HTTP response as \<open>handleResponse\<close> reads it: the status code, the headers and the
  bytes \<open>io.ReadAll\<close> returns for the body (the source discards the error of
  \<open>io.ReadAll\<close>).
\<close>

record Response =
  RespStatusCode :: int
  RespHeader :: Header
  RespBody :: string

text \<open>
  \<open>json.Unmarshal(body, &errResp)\<close> with \<open>errResp\<close> of type
  \<open>struct { Error string `json:"error"` }\<close> is a parameter: \<open>None\<close> when it
  returns a non-nil error, \<open>Some e\<close> when it returns nil and leaves \<open>e\<close> in
  \<open>errResp.Error\<close> (the empty string when the body has no such member).
\<close>

type_synonym unmarshal_errResp = "string \<Rightarrow> string option"

definition handleResponse :: "unmarshal_errResp \<Rightarrow> Response \<Rightarrow> error option" where
  "handleResponse unmarshal resp =
     (if RespStatusCode resp = 200 \<or> RespStatusCode resp = 201 then None
      else
        let body = RespBody resp in
        if RespStatusCode resp = 401 then Some (AuthenticationError [])
        else if RespStatusCode resp = 400 then
          (case unmarshal body of
             Some e \<Rightarrow>
               if e \<noteq> [] then Some (EntrolyticsError ''validation_error'' e (RespStatusCode resp))
               else Some (EntrolyticsError ''bad_request'' ''invalid request'' (RespStatusCode resp))
           | None \<Rightarrow> Some (EntrolyticsError ''bad_request'' ''invalid request'' (RespStatusCode resp)))
        else if RespStatusCode resp = 429 then
          (let ra = Header_Get (RespHeader resp) ''Retry-After'';
               retryAfter = (if ra \<noteq> [] then (case Atoi ra of Some n \<Rightarrow> n | None \<Rightarrow> 0) else 0)
           in Some (RateLimitError [] retryAfter))
        else
          Some (EntrolyticsError ''request_failed''
                  (''request failed with status '' @ Sprintf_d (RespStatusCode resp))
                  (RespStatusCode resp)))"

section \<open>Values and JSON\<close>

text \<open>
  A \<open>float64\<close> is a finite number or one of the three values \<open>json.Marshal\<close> rejects.
\<close>

datatype float64 = Float real | NaN | PosInf | NegInf

text \<open>
  The dynamic values an \<open>interface{}\<close> can hold, as far as \<open>json.Marshal\<close> tells them
  apart. \<open>VUnsupported\<close> is any value it refuses (a channel, a function, a complex
  number). A map is its list of entries.
\<close>

datatype 't go_value =
    VNil
  | VBool bool
  | VInt int
  | VFloat float64
  | VString string
  | VTime 't
  | VSlice "'t go_value list"
  | VMap "(string \<times> 't go_value) list"
  | VUnsupported

text \<open>A Go map value: \<open>None\<close> is the nil map.\<close>

type_synonym 't go_map = "(string \<times> 't go_value) list option"

text \<open>
  The JSON document \<open>json.Marshal\<close> produces, as a tree (the byte encoding, the escaping
  and the order of the members are the encoder's business).
\<close>

datatype json =
    JNull
  | JBool bool
  | JInt int
  | JFloat real
  | JString string
  | JArray "json list"
  | JObject "(string \<times> json) list"

text \<open>
  The first argument is \<open>time.Time.MarshalJSON\<close>, which fails on a year outside
  0..9999.
\<close>

fun marshal_value :: "('t \<Rightarrow> string option) \<Rightarrow> 't go_value \<Rightarrow> json option" where
  "marshal_value mt VNil = Some JNull"
| "marshal_value mt (VBool b) = Some (JBool b)"
| "marshal_value mt (VInt i) = Some (JInt i)"
| "marshal_value mt (VFloat f) = (case f of Float r \<Rightarrow> Some (JFloat r) | _ \<Rightarrow> None)"
| "marshal_value mt (VString s) = Some (JString s)"
| "marshal_value mt (VTime t) = map_option JString (mt t)"
| "marshal_value mt (VSlice xs) = map_option JArray (those (map (marshal_value mt) xs))"
| "marshal_value mt (VMap kvs) =
     map_option JObject
       (those (map (\<lambda>kv. map_option (Pair (fst kv)) (marshal_value mt (snd kv))) kvs))"
| "marshal_value mt VUnsupported = None"

text \<open>A map stored in an \<open>interface{}\<close>: the nil map is encoded as \<open>null\<close>.\<close>

definition box_map :: "'t go_map \<Rightarrow> 't go_value" where
  "box_map m = (case m of None \<Rightarrow> VNil | Some kvs \<Rightarrow> VMap kvs)"

text \<open>Struct fields tagged \<open>omitempty\<close>: the member is left out for the zero value.\<close>

definition omit_string :: "string \<Rightarrow> string \<Rightarrow> (string \<times> json) list" where
  "omit_string k s = (if s = [] then [] else [(k, JString s)])"

definition omit_int :: "string \<Rightarrow> int \<Rightarrow> (string \<times> json) list" where
  "omit_int k i = (if i = 0 then [] else [(k, JInt i)])"

definition omit_bool :: "string \<Rightarrow> bool \<Rightarrow> (string \<times> json) list" where
  "omit_bool k b = (if b then [(k, JBool True)] else [])"

definition omit_float :: "string \<Rightarrow> float64 \<Rightarrow> (string \<times> json) list option" where
  "omit_float k f =
     (case f of Float r \<Rightarrow> if r = 0 then Some [] else Some [(k, JFloat r)] | _ \<Rightarrow> None)"

definition omit_map ::
  "('t \<Rightarrow> string option) \<Rightarrow> string \<Rightarrow> 't go_map \<Rightarrow> (string \<times> json) list option" where
  "omit_map mt k m =
     (case m of
        None \<Rightarrow> Some []
      | Some kvs \<Rightarrow>
          if kvs = [] then Some [] else map_option (\<lambda>j. [(k, j)]) (marshal_value mt (VMap kvs)))"

text \<open>Reading a member of a JSON object, and a path of members.\<close>

definition json_member :: "string \<Rightarrow> json \<Rightarrow> json option" where
  "json_member k j = (case j of JObject kvs \<Rightarrow> map_of kvs k | _ \<Rightarrow> None)"

fun json_path :: "string list \<Rightarrow> json \<Rightarrow> json option" where
  "json_path [] j = Some j"
| "json_path (k # ks) j = (case json_member k j of None \<Rightarrow> None | Some j' \<Rightarrow> json_path ks j')"

section \<open>The typed client: records and payloads\<close>

record 't Event =
  ev_WebsiteID :: string
  ev_Name :: string
  ev_Data :: "'t go_map"
  ev_URL :: string
  ev_Referrer :: string
  ev_UserID :: string
  ev_SessionID :: string
  ev_UserAgent :: string
  ev_IPAddress :: string
  ev_Timestamp :: 't

record 't PageView =
  pv_WebsiteID :: string
  pv_URL :: string
  pv_Referrer :: string
  pv_Title :: string
  pv_UserID :: string
  pv_SessionID :: string
  pv_UserAgent :: string
  pv_IPAddress :: string
  pv_Timestamp :: 't

record 't Identify =
  id_WebsiteID :: string
  id_UserID :: string
  id_Traits :: "'t go_map"
  id_Timestamp :: 't

record ClientOptions =
  opt_APIKey :: string
  opt_Host :: string
  opt_Timeout :: int
  opt_UserAgent :: string

record 't trackPayload =
  tp_Website :: string
  tp_Name :: string
  tp_Data :: "'t go_map"
  tp_URL :: string
  tp_Referrer :: string
  tp_UserID :: string
  tp_SessionID :: string
  tp_Timestamp :: string

record 't identifyPayload =
  ip_Website :: string
  ip_UserID :: string
  ip_Traits :: "'t go_map"
  ip_Timestamp :: string

text \<open>The \<open>Payload interface{}\<close> of the envelope holds one of the two payload structs.\<close>

datatype 't inner_payload = TrackPayload "'t trackPayload" | IdentifyPayload "'t identifyPayload"

record 't eventPayload =
  ep_Type :: string
  ep_Payload :: "'t inner_payload"

type_synonym VitalMetric = string

definition LCP :: VitalMetric where "LCP = ''LCP''"
definition INP :: VitalMetric where "INP = ''INP''"
definition CLS :: VitalMetric where "CLS = ''CLS''"
definition TTFB :: VitalMetric where "TTFB = ''TTFB''"
definition FCP :: VitalMetric where "FCP = ''FCP''"

type_synonym VitalRating = string

definition Good :: VitalRating where "Good = ''good''"
definition NeedsImprovement :: VitalRating where "NeedsImprovement = ''needs-improvement''"
definition Poor :: VitalRating where "Poor = ''poor''"

type_synonym NavigationType = string

record 't WebVital =
  wv_WebsiteID :: string
  wv_Metric :: VitalMetric
  wv_Value :: float64
  wv_Rating :: VitalRating
  wv_Delta :: float64
  wv_ID :: string
  wv_NavigationType :: NavigationType
  wv_Attribution :: "'t go_map"
  wv_URL :: string
  wv_Path :: string
  wv_SessionID :: string
  wv_Timestamp :: 't

record 't vitalPayload =
  vp_Website :: string
  vp_Metric :: VitalMetric
  vp_Value :: float64
  vp_Rating :: VitalRating
  vp_Delta :: float64
  vp_ID :: string
  vp_NavigationType :: NavigationType
  vp_Attribution :: "'t go_map"
  vp_URL :: string
  vp_Path :: string
  vp_SessionID :: string

type_synonym FormEventType = string

record 't FormEvent =
  fe_WebsiteID :: string
  fe_EventType :: FormEventType
  fe_FormID :: string
  fe_FormName :: string
  fe_URLPath :: string
  fe_FieldName :: string
  fe_FieldType :: string
  fe_FieldIndex :: int
  fe_TimeOnField :: int
  fe_TimeSinceStart :: int
  fe_ErrorMessage :: string
  fe_Success :: bool
  fe_SessionID :: string
  fe_Timestamp :: 't

record formEventPayload =
  fp_Website :: string
  fp_EventType :: FormEventType
  fp_FormID :: string
  fp_FormName :: string
  fp_URLPath :: string
  fp_FieldName :: string
  fp_FieldType :: string
  fp_FieldIndex :: int
  fp_TimeOnField :: int
  fp_TimeSinceStart :: int
  fp_ErrorMessage :: string
  fp_Success :: bool
  fp_SessionID :: string

type_synonym DeploymentSource = string

record Deployment =
  dp_WebsiteID :: string
  dp_DeployID :: string
  dp_GitSha :: string
  dp_GitBranch :: string
  dp_DeployURL :: string
  dp_Source :: DeploymentSource

record deploymentPayload =
  dpp_Website :: string
  dpp_DeployID :: string
  dpp_GitSha :: string
  dpp_GitBranch :: string
  dpp_DeployURL :: string
  dpp_Source :: DeploymentSource

text \<open>What \<open>sendToEndpoint\<close> receives as its \<open>payload interface{}\<close>.\<close>

datatype 't payload =
    EventPayload "'t eventPayload"
  | VitalPayload "'t vitalPayload"
  | FormEventPayload formEventPayload
  | DeploymentPayload deploymentPayload

section \<open>The world outside the program\<close>

text \<open>
  An \<open>http.Request\<close>: the fields the SDK writes on an outbound request and reads on an
  inbound one. The body is the JSON document the request carries.
\<close>

record Request =
  ReqMethod :: string
  ReqURL :: string
  ReqHeader :: Header
  ReqBody :: json
  RemoteAddr :: string

text \<open>
  Everything a call depends on besides its arguments. \<open>time_Now k\<close> is the instant the
  \<open>k\<close>-th reading of \<open>time.Now()\<close> during the call returns; the other \<open>time_\<close> fields are
  the methods of \<open>time.Time\<close> the SDK uses (\<open>time_Format_RFC3339 t\<close> is
  \<open>t.Format(time.RFC3339)\<close>). \<open>http_NewRequest_error url\<close> is the error of
  \<open>http.NewRequestWithContext\<close> for that URL, if any; \<open>http_Do\<close> is the round trip of
  \<open>http.Client.Do\<close>, honouring the context and the timeout: \<open>Inl\<close> is a transport
  error.
\<close>

record 't world =
  time_Now :: "nat \<Rightarrow> 't"
  time_UTC :: "'t \<Rightarrow> 't"
  time_IsZero :: "'t \<Rightarrow> bool"
  time_Format_RFC3339 :: "'t \<Rightarrow> string"
  time_MarshalJSON :: "'t \<Rightarrow> string option"
  json_Unmarshal_errResp :: unmarshal_errResp
  http_NewRequest_error :: "string \<Rightarrow> cause option"
  http_Do :: "Request \<Rightarrow> cause + Response"

text \<open>The observable steps of a call, in order.\<close>

datatype 'p effect = Printf | Marshal 'p | Do Request

definition sent :: "'p effect list \<Rightarrow> Request list" where
  "sent tr = concat (map (\<lambda>e. case e of Do r \<Rightarrow> [r] | _ \<Rightarrow> []) tr)"

definition marshalled :: "'p effect list \<Rightarrow> 'p list" where
  "marshalled tr = concat (map (\<lambda>e. case e of Marshal p \<Rightarrow> [p] | _ \<Rightarrow> []) tr)"

section \<open>json.Marshal on the payload structs\<close>

definition marshal_error :: cause where
  "marshal_error = ''json: unsupported value''"

definition marshal_trackPayload ::
  "('t \<Rightarrow> string option) \<Rightarrow> 't trackPayload \<Rightarrow> json option" where
  "marshal_trackPayload mt p =
     (case omit_map mt ''data'' (tp_Data p) of
        None \<Rightarrow> None
      | Some d \<Rightarrow>
          Some (JObject
            ([(''website'', JString (tp_Website p)), (''name'', JString (tp_Name p))]
             @ d
             @ omit_string ''url'' (tp_URL p)
             @ omit_string ''referrer'' (tp_Referrer p)
             @ omit_string ''userId'' (tp_UserID p)
             @ omit_string ''sessionId'' (tp_SessionID p)
             @ [(''timestamp'', JString (tp_Timestamp p))])))"

definition marshal_identifyPayload ::
  "('t \<Rightarrow> string option) \<Rightarrow> 't identifyPayload \<Rightarrow> json option" where
  "marshal_identifyPayload mt p =
     (case omit_map mt ''traits'' (ip_Traits p) of
        None \<Rightarrow> None
      | Some d \<Rightarrow>
          Some (JObject
            ([(''website'', JString (ip_Website p)), (''userId'', JString (ip_UserID p))]
             @ d
             @ [(''timestamp'', JString (ip_Timestamp p))])))"

definition marshal_eventPayload ::
  "('t \<Rightarrow> string option) \<Rightarrow> 't eventPayload \<Rightarrow> json option" where
  "marshal_eventPayload mt ep =
     (case (case ep_Payload ep of
              TrackPayload p \<Rightarrow> marshal_trackPayload mt p
            | IdentifyPayload p \<Rightarrow> marshal_identifyPayload mt p) of
        None \<Rightarrow> None
      | Some j \<Rightarrow> Some (JObject [(''type'', JString (ep_Type ep)), (''payload'', j)]))"

definition marshal_vitalPayload ::
  "('t \<Rightarrow> string option) \<Rightarrow> 't vitalPayload \<Rightarrow> json option" where
  "marshal_vitalPayload mt p =
     (case marshal_value mt (VFloat (vp_Value p)) of
        None \<Rightarrow> None
      | Some v \<Rightarrow>
          (case omit_float ''delta'' (vp_Delta p) of
             None \<Rightarrow> None
           | Some dl \<Rightarrow>
               (case omit_map mt ''attribution'' (vp_Attribution p) of
                  None \<Rightarrow> None
                | Some attr \<Rightarrow>
                    Some (JObject
                      ([(''website'', JString (vp_Website p)),
                        (''metric'', JString (vp_Metric p)),
                        (''value'', v),
                        (''rating'', JString (vp_Rating p))]
                       @ dl
                       @ omit_string ''id'' (vp_ID p)
                       @ omit_string ''navigationType'' (vp_NavigationType p)
                       @ attr
                       @ omit_string ''url'' (vp_URL p)
                       @ omit_string ''path'' (vp_Path p)
                       @ omit_string ''sessionId'' (vp_SessionID p))))))"

definition marshal_formEventPayload :: "formEventPayload \<Rightarrow> json option" where
  "marshal_formEventPayload p =
     Some (JObject
       ([(''website'', JString (fp_Website p)),
         (''eventType'', JString (fp_EventType p)),
         (''formId'', JString (fp_FormID p))]
        @ omit_string ''formName'' (fp_FormName p)
        @ [(''urlPath'', JString (fp_URLPath p))]
        @ omit_string ''fieldName'' (fp_FieldName p)
        @ omit_string ''fieldType'' (fp_FieldType p)
        @ omit_int ''fieldIndex'' (fp_FieldIndex p)
        @ omit_int ''timeOnField'' (fp_TimeOnField p)
        @ omit_int ''timeSinceStart'' (fp_TimeSinceStart p)
        @ omit_string ''errorMessage'' (fp_ErrorMessage p)
        @ omit_bool ''success'' (fp_Success p)
        @ omit_string ''sessionId'' (fp_SessionID p)))"

definition marshal_deploymentPayload :: "deploymentPayload \<Rightarrow> json option" where
  "marshal_deploymentPayload p =
     Some (JObject
       ([(''website'', JString (dpp_Website p)), (''deployId'', JString (dpp_DeployID p))]
        @ omit_string ''gitSha'' (dpp_GitSha p)
        @ omit_string ''gitBranch'' (dpp_GitBranch p)
        @ omit_string ''deployUrl'' (dpp_DeployURL p)
        @ omit_string ''source'' (dpp_Source p)))"

definition json_Marshal :: "('t \<Rightarrow> string option) \<Rightarrow> 't payload \<Rightarrow> cause + json" where
  "json_Marshal mt payload =
     (case (case payload of
              EventPayload p \<Rightarrow> marshal_eventPayload mt p
            | VitalPayload p \<Rightarrow> marshal_vitalPayload mt p
            | FormEventPayload p \<Rightarrow> marshal_formEventPayload p
            | DeploymentPayload p \<Rightarrow> marshal_deploymentPayload p) of
        None \<Rightarrow> Inl marshal_error
      | Some j \<Rightarrow> Inr j)"

section \<open>The typed client\<close>

definition DefaultHost :: string where
  "DefaultHost = ''https://entrolytics.click''"

definition DefaultTimeout :: int where
  "DefaultTimeout = 10 * 1000000000"

definition Version :: string where
  "Version = ''2.1.0''"

record Client =
  apiKey :: string
  host :: string
  timeout :: int
  userAgent :: string

definition NewClientWithOptions :: "ClientOptions \<Rightarrow> Client" where
  "NewClientWithOptions opts =
     \<lparr>apiKey = opt_APIKey opts,
      host = (if opt_Host opts = [] then DefaultHost else opt_Host opts),
      timeout = (if opt_Timeout opts = 0 then DefaultTimeout else opt_Timeout opts),
      userAgent = (if opt_UserAgent opts = [] then ''entrolytics-go/'' @ Version else opt_UserAgent opts)\<rparr>"

definition NewClient :: "string \<Rightarrow> Client" where
  "NewClient key =
     NewClientWithOptions \<lparr>opt_APIKey = key, opt_Host = [], opt_Timeout = 0, opt_UserAgent = []\<rparr>"

type_synonym 't result = "error option \<times> 't payload effect list"

definition sendToEndpoint ::
  "'t world \<Rightarrow> Client \<Rightarrow> string \<Rightarrow> 't payload \<Rightarrow> string \<Rightarrow> string \<Rightarrow> 't result" where
  "sendToEndpoint w c endpoint payload ua ipAddress =
     (case json_Marshal (time_MarshalJSON w) payload of
        Inl e \<Rightarrow> (Some (NetworkError ''failed to marshal payload'' e), [Marshal payload])
      | Inr body \<Rightarrow>
          let url = host c @ endpoint in
          (case http_NewRequest_error w url of
             Some e \<Rightarrow> (Some (NetworkError ''failed to create request'' e), [Marshal payload])
           | None \<Rightarrow>
               let h0 = Header_Set Map.empty ''Authorization'' (''Bearer '' @ apiKey c);
                   h1 = Header_Set h0 ''Content-Type'' ''application/json'';
                   h2 = Header_Set h1 ''User-Agent'' (userAgent c);
                   h3 = (if ua \<noteq> [] then Header_Set h2 ''X-Forwarded-User-Agent'' ua else h2);
                   h4 = (if ipAddress \<noteq> [] then Header_Set h3 ''X-Forwarded-For'' ipAddress else h3);
                   req = \<lparr>ReqMethod = ''POST'', ReqURL = url, ReqHeader = h4, ReqBody = body,
                          RemoteAddr = []\<rparr>
               in (case http_Do w req of
                     Inl e \<Rightarrow> (Some (NetworkError ''request failed'' e), [Marshal payload, Do req])
                   | Inr resp \<Rightarrow>
                       (handleResponse (json_Unmarshal_errResp w) resp, [Marshal payload, Do req]))))"

definition send :: "'t world \<Rightarrow> Client \<Rightarrow> 't payload \<Rightarrow> string \<Rightarrow> string \<Rightarrow> 't result" where
  "send w c payload ua ipAddress = sendToEndpoint w c ''/api/send'' payload ua ipAddress"

definition TrackWithContext :: "'t world \<Rightarrow> Client \<Rightarrow> 't Event \<Rightarrow> 't result" where
  "TrackWithContext w c event =
     (if apiKey c = [] then (Some ErrAPIKeyRequired, [])
      else if ev_WebsiteID event = [] then (Some ErrWebsiteIDRequired, [])
      else if ev_Name event = [] then (Some ErrEventNameRequired, [])
      else
        let timestamp = (if time_IsZero w (ev_Timestamp event) then time_UTC w (time_Now w 0)
                         else ev_Timestamp event);
            payload = \<lparr>ep_Type = ''event'',
                       ep_Payload = TrackPayload
                         \<lparr>tp_Website = ev_WebsiteID event,
                          tp_Name = ev_Name event,
                          tp_Data = ev_Data event,
                          tp_URL = ev_URL event,
                          tp_Referrer = ev_Referrer event,
                          tp_UserID = ev_UserID event,
                          tp_SessionID = ev_SessionID event,
                          tp_Timestamp = time_Format_RFC3339 w timestamp\<rparr>\<rparr>
        in send w c (EventPayload payload) (ev_UserAgent event) (ev_IPAddress event))"

definition Track :: "'t world \<Rightarrow> Client \<Rightarrow> 't Event \<Rightarrow> 't result" where
  "Track w c event = TrackWithContext w c event"

definition PageViewWithContext :: "'t world \<Rightarrow> Client \<Rightarrow> 't PageView \<Rightarrow> 't result" where
  "PageViewWithContext w c pv =
     (if apiKey c = [] then (Some ErrAPIKeyRequired, [])
      else if pv_WebsiteID pv = [] then (Some ErrWebsiteIDRequired, [])
      else if pv_URL pv = [] then (Some ErrURLRequired, [])
      else
        let timestamp = (if time_IsZero w (pv_Timestamp pv) then time_UTC w (time_Now w 0)
                         else pv_Timestamp pv);
            data = (if pv_Title pv \<noteq> [] then [(''title'', VString (pv_Title pv))] else []);
            payload = \<lparr>ep_Type = ''event'',
                       ep_Payload = TrackPayload
                         \<lparr>tp_Website = pv_WebsiteID pv,
                          tp_Name = ''$pageview'',
                          tp_Data = Some data,
                          tp_URL = pv_URL pv,
                          tp_Referrer = pv_Referrer pv,
                          tp_UserID = pv_UserID pv,
                          tp_SessionID = pv_SessionID pv,
                          tp_Timestamp = time_Format_RFC3339 w timestamp\<rparr>\<rparr>
        in send w c (EventPayload payload) (pv_UserAgent pv) (pv_IPAddress pv))"

definition PageView :: "'t world \<Rightarrow> Client \<Rightarrow> 't PageView \<Rightarrow> 't result" where
  "PageView w c pv = PageViewWithContext w c pv"

definition IdentifyWithContext :: "'t world \<Rightarrow> Client \<Rightarrow> 't Identify \<Rightarrow> 't result" where
  "IdentifyWithContext w c ident =
     (if apiKey c = [] then (Some ErrAPIKeyRequired, [])
      else if id_WebsiteID ident = [] then (Some ErrWebsiteIDRequired, [])
      else if id_UserID ident = [] then (Some ErrUserIDRequired, [])
      else
        let timestamp = (if time_IsZero w (id_Timestamp ident) then time_UTC w (time_Now w 0)
                         else id_Timestamp ident);
            payload = \<lparr>ep_Type = ''identify'',
                       ep_Payload = IdentifyPayload
                         \<lparr>ip_Website = id_WebsiteID ident,
                          ip_UserID = id_UserID ident,
                          ip_Traits = id_Traits ident,
                          ip_Timestamp = time_Format_RFC3339 w timestamp\<rparr>\<rparr>
        in send w c (EventPayload payload) [] [])"

definition Identify :: "'t world \<Rightarrow> Client \<Rightarrow> 't Identify \<Rightarrow> 't result" where
  "Identify w c ident = IdentifyWithContext w c ident"

definition TrackVitalWithContext :: "'t world \<Rightarrow> Client \<Rightarrow> 't WebVital \<Rightarrow> 't result" where
  "TrackVitalWithContext w c vital =
     (if apiKey c = [] then (Some ErrAPIKeyRequired, [])
      else if wv_WebsiteID vital = [] then (Some ErrWebsiteIDRequired, [])
      else if wv_Metric vital = [] then (Some ErrVitalMetricRequired, [])
      else if wv_Rating vital = [] then (Some ErrVitalRatingRequired, [])
      else
        let payload = \<lparr>vp_Website = wv_WebsiteID vital,
                       vp_Metric = wv_Metric vital,
                       vp_Value = wv_Value vital,
                       vp_Rating = wv_Rating vital,
                       vp_Delta = wv_Delta vital,
                       vp_ID = wv_ID vital,
                       vp_NavigationType = wv_NavigationType vital,
                       vp_Attribution = wv_Attribution vital,
                       vp_URL = wv_URL vital,
                       vp_Path = wv_Path vital,
                       vp_SessionID = wv_SessionID vital\<rparr>
        in sendToEndpoint w c ''/api/collect/vitals'' (VitalPayload payload) [] [])"

definition TrackVital :: "'t world \<Rightarrow> Client \<Rightarrow> 't WebVital \<Rightarrow> 't result" where
  "TrackVital w c vital = TrackVitalWithContext w c vital"

definition TrackFormEventWithContext :: "'t world \<Rightarrow> Client \<Rightarrow> 't FormEvent \<Rightarrow> 't result" where
  "TrackFormEventWithContext w c event =
     (if apiKey c = [] then (Some ErrAPIKeyRequired, [])
      else if fe_WebsiteID event = [] then (Some ErrWebsiteIDRequired, [])
      else if fe_FormID event = [] then (Some ErrFormIDRequired, [])
      else if fe_EventType event = [] then (Some ErrFormEventTypeRequired, [])
      else if fe_URLPath event = [] then (Some ErrURLPathRequired, [])
      else
        let payload = \<lparr>fp_Website = fe_WebsiteID event,
                       fp_EventType = fe_EventType event,
                       fp_FormID = fe_FormID event,
                       fp_FormName = fe_FormName event,
                       fp_URLPath = fe_URLPath event,
                       fp_FieldName = fe_FieldName event,
                       fp_FieldType = fe_FieldType event,
                       fp_FieldIndex = fe_FieldIndex event,
                       fp_TimeOnField = fe_TimeOnField event,
                       fp_TimeSinceStart = fe_TimeSinceStart event,
                       fp_ErrorMessage = fe_ErrorMessage event,
                       fp_Success = fe_Success event,
                       fp_SessionID = fe_SessionID event\<rparr>
        in sendToEndpoint w c ''/api/collect/forms'' (FormEventPayload payload) [] [])"

definition TrackFormEvent :: "'t world \<Rightarrow> Client \<Rightarrow> 't FormEvent \<Rightarrow> 't result" where
  "TrackFormEvent w c event = TrackFormEventWithContext w c event"

definition SetDeploymentWithContext :: "'t world \<Rightarrow> Client \<Rightarrow> Deployment \<Rightarrow> 't result" where
  "SetDeploymentWithContext w c deploy =
     (if apiKey c = [] then (Some ErrAPIKeyRequired, [])
      else if dp_WebsiteID deploy = [] then (Some ErrWebsiteIDRequired, [])
      else if dp_DeployID deploy = [] then (Some ErrDeployIDRequired, [])
      else
        let payload = \<lparr>dpp_Website = dp_WebsiteID deploy,
                       dpp_DeployID = dp_DeployID deploy,
                       dpp_GitSha = dp_GitSha deploy,
                       dpp_GitBranch = dp_GitBranch deploy,
                       dpp_DeployURL = dp_DeployURL deploy,
                       dpp_Source = dp_Source deploy\<rparr>
        in sendToEndpoint w c (''/api/websites/'' @ dp_WebsiteID deploy @ ''/deployments'')
             (DeploymentPayload payload) [] [])"

definition SetDeployment :: "'t world \<Rightarrow> Client \<Rightarrow> Deployment \<Rightarrow> 't result" where
  "SetDeployment w c deploy = SetDeploymentWithContext w c deploy"

section \<open>middleware.go: the client address of an inbound request\<close>

definition getClientIP :: "Request \<Rightarrow> string" where
  "getClientIP r =
     (let xff = Header_Get (ReqHeader r) ''X-Forwarded-For'' in
      if xff \<noteq> [] then
        (let idx = Index xff '','' in
         if idx \<noteq> - 1 then TrimSpace (take (nat idx) xff) else TrimSpace xff)
      else
        let xri = Header_Get (ReqHeader r) ''X-Real-IP'' in
        if xri \<noteq> [] then xri
        else
          let cfip = Header_Get (ReqHeader r) ''CF-Connecting-IP'' in
          if cfip \<noteq> [] then cfip
          else
            let ip = RemoteAddr r; idx = LastIndex ip '':'' in
            if idx \<noteq> - 1 then take (nat idx) ip else ip)"

section \<open>client.go: the generic client (package \<open>client\<close>)\<close>

record client_Config =
  cfg_Endpoint :: string
  cfg_APIKey :: string
  cfg_Timeout :: int
  cfg_Debug :: bool

record 't client_Event =
  ce_Event :: string
  ce_Properties :: "'t go_map"
  ce_UserID :: string
  ce_AnonymousID :: string
  ce_Timestamp :: 't
  ce_WebsiteID :: string

text \<open>The errors of this client are \<open>fmt.Errorf\<close> messages.\<close>

type_synonym 't client_result = "string option \<times> 't go_value effect list"

definition client_TrackWithContext ::
  "'t world \<Rightarrow> client_Config \<Rightarrow> 't client_Event \<Rightarrow> 't client_result" where
  "client_TrackWithContext w config event0 =
     (let event1 = (if time_IsZero w (ce_Timestamp event0)
                    then event0\<lparr>ce_Timestamp := time_Now w 0\<rparr> else event0);
          event = (if ce_WebsiteID event1 = []
                   then event1\<lparr>ce_WebsiteID := cfg_APIKey config\<rparr> else event1);
          payload = VMap
            [(''event'', VString (ce_Event event)),
             (''properties'', box_map (ce_Properties event)),
             (''userId'', VString (ce_UserID event)),
             (''anonymousId'', VString (ce_AnonymousID event)),
             (''timestamp'', VTime (ce_Timestamp event)),
             (''website_id'', VString (ce_WebsiteID event))];
          dbg = (if cfg_Debug config then [Printf] else [])
      in
      case marshal_value (time_MarshalJSON w) payload of
        None \<Rightarrow> (Some (''failed to marshal event: '' @ marshal_error), dbg @ [Marshal payload])
      | Some jsonPayload \<Rightarrow>
          (case http_NewRequest_error w (cfg_Endpoint config @ ''/collect'') of
             Some e \<Rightarrow> (Some (''failed to create request: '' @ e), dbg @ [Marshal payload])
           | None \<Rightarrow>
               let h0 = Header_Set Map.empty ''Content-Type'' ''application/json'';
                   h1 = Header_Set h0 ''Authorization'' (''Bearer '' @ cfg_APIKey config);
                   req = \<lparr>ReqMethod = ''POST'', ReqURL = cfg_Endpoint config @ ''/collect'',
                          ReqHeader = h1, ReqBody = jsonPayload, RemoteAddr = []\<rparr>
               in (case http_Do w req of
                     Inl e \<Rightarrow>
                       (Some (''failed to send request: '' @ e), dbg @ [Marshal payload, Do req])
                   | Inr resp \<Rightarrow>
                       if RespStatusCode resp \<ge> 400
                       then (Some (''server returned error status: '' @ Sprintf_d (RespStatusCode resp)),
                             dbg @ [Marshal payload, Do req])
                       else (None, dbg @ [Marshal payload, Do req]))))"

definition client_Track :: "'t world \<Rightarrow> client_Config \<Rightarrow> 't client_Event \<Rightarrow> 't client_result" where
  "client_Track w config event = client_TrackWithContext w config event"

text \<open>
  The loop of \<open>BatchWithContext\<close> over the events; \<open>k\<close> counts the readings of the clock
  so far.
\<close>

fun batch_loop :: "'t world \<Rightarrow> client_Config \<Rightarrow> nat \<Rightarrow> 't client_Event list \<Rightarrow> 't go_value list" where
  "batch_loop w config k [] = []"
| "batch_loop w config k (event0 # rest) =
     (let zero = time_IsZero w (ce_Timestamp event0);
          event1 = (if zero then event0\<lparr>ce_Timestamp := time_Now w k\<rparr> else event0);
          event = (if ce_WebsiteID event1 = []
                   then event1\<lparr>ce_WebsiteID := cfg_APIKey config\<rparr> else event1)
      in VMap
           [(''event'', VString (ce_Event event)),
            (''properties'', box_map (ce_Properties event)),
            (''userId'', VString (ce_UserID event)),
            (''anonymousId'', VString (ce_AnonymousID event)),
            (''timestamp'', VTime (ce_Timestamp event)),
            (''website_id'', VString (ce_WebsiteID event))]
         # batch_loop w config (if zero then Suc k else k) rest)"

definition client_BatchWithContext ::
  "'t world \<Rightarrow> client_Config \<Rightarrow> 't client_Event list \<Rightarrow> 't client_result" where
  "client_BatchWithContext w config events =
     (if length events = 0 then (None, [])
      else
        let batch = VSlice (batch_loop w config 0 events);
            dbg = (if cfg_Debug config then [Printf] else [])
        in
        case marshal_value (time_MarshalJSON w) batch of
          None \<Rightarrow> (Some (''failed to marshal batch: '' @ marshal_error), dbg @ [Marshal batch])
        | Some jsonPayload \<Rightarrow>
            (case http_NewRequest_error w (cfg_Endpoint config @ ''/collect/batch'') of
               Some e \<Rightarrow> (Some (''failed to create batch request: '' @ e), dbg @ [Marshal batch])
             | None \<Rightarrow>
                 let h0 = Header_Set Map.empty ''Content-Type'' ''application/json'';
                     h1 = Header_Set h0 ''Authorization'' (''Bearer '' @ cfg_APIKey config);
                     req = \<lparr>ReqMethod = ''POST'', ReqURL = cfg_Endpoint config @ ''/collect/batch'',
                            ReqHeader = h1, ReqBody = jsonPayload, RemoteAddr = []\<rparr>
                 in (case http_Do w req of
                       Inl e \<Rightarrow>
                         (Some (''failed to send batch request: '' @ e), dbg @ [Marshal batch, Do req])
                     | Inr resp \<Rightarrow>
                         if RespStatusCode resp \<ge> 400
                         then (Some (''server returned error status for batch: ''
                                       @ Sprintf_d (RespStatusCode resp)),
                               dbg @ [Marshal batch, Do req])
                         else (None, dbg @ [Marshal batch, Do req]))))"

definition client_Batch ::
  "'t world \<Rightarrow> client_Config \<Rightarrow> 't client_Event list \<Rightarrow> 't client_result" where
  "client_Batch w config events = client_BatchWithContext w config events"

section \<open>Sample inputs\<close>

text \<open>
  A decoder, a response builder and a world to run the definitions on. Instants are
  seconds since the Unix epoch; the zero \<open>time.Time\<close> (1 January of year 1, UTC) is
  second \<open>-62135596800\<close>. The sample transport answers 200 to everything.
\<close>

definition sample_unmarshal :: unmarshal_errResp where
  \<open>sample_unmarshal body =
     (if body = ''{"error":"bad website"}'' then Some ''bad website''
      else if body = ''{}'' then Some [] else None)\<close>

definition sample_response :: "int \<Rightarrow> (string \<times> string) list \<Rightarrow> string \<Rightarrow> Response" where
  "sample_response code hs body = \<lparr>RespStatusCode = code, RespHeader = map_of hs, RespBody = body\<rparr>"

definition sample_Format :: "int \<Rightarrow> string" where
  "sample_Format t =
     (if t = 1700000000 then ''2023-11-14T22:13:20Z''
      else if t = 1600000000 then ''2020-09-13T12:26:40Z''
      else if t = - 62135596800 then ''0001-01-01T00:00:00Z''
      else ''1970-01-01T00:00:00Z'')"

definition sample_world :: "int world" where
  "sample_world =
     \<lparr>time_Now = (\<lambda>k. 1700000000),
      time_UTC = (\<lambda>t. t),
      time_IsZero = (\<lambda>t. t = - 62135596800),
      time_Format_RFC3339 = sample_Format,
      time_MarshalJSON = (\<lambda>t. Some (sample_Format t)),
      json_Unmarshal_errResp = sample_unmarshal,
      http_NewRequest_error = (\<lambda>url. None),
      http_Do = (\<lambda>req. Inr (sample_response 200 [] []))\<rparr>"

definition sample_client :: Client where
  "sample_client = NewClient ''ent_xxx''"

definition sample_event :: "int Event" where
  "sample_event =
     \<lparr>ev_WebsiteID = ''abc123'', ev_Name = ''purchase'',
      ev_Data = Some [(''revenue'', VFloat (Float 99.99)), (''currency'', VString ''USD'')],
      ev_URL = ''/checkout'', ev_Referrer = [], ev_UserID = ''user_123'', ev_SessionID = [],
      ev_UserAgent = ''Mozilla/5.0'', ev_IPAddress = ''192.168.1.1'',
      ev_Timestamp = - 62135596800\<rparr>"

definition sample_pageview :: "int PageView" where
  "sample_pageview =
     \<lparr>pv_WebsiteID = ''abc123'', pv_URL = ''/pricing'', pv_Referrer = ''https://google.com'',
      pv_Title = ''Pricing'', pv_UserID = [], pv_SessionID = [],
      pv_UserAgent = ''Mozilla/5.0'', pv_IPAddress = ''192.168.1.1'',
      pv_Timestamp = 1600000000\<rparr>"

definition sample_identify :: "int Identify" where
  "sample_identify =
     \<lparr>id_WebsiteID = ''abc123'', id_UserID = ''user_456'',
      id_Traits = Some [(''plan'', VString ''pro'')], id_Timestamp = - 62135596800\<rparr>"

definition sample_vital :: "int WebVital" where
  "sample_vital =
     \<lparr>wv_WebsiteID = ''abc123'', wv_Metric = LCP, wv_Value = Float 2500, wv_Rating = Good,
      wv_Delta = Float 0, wv_ID = [], wv_NavigationType = [], wv_Attribution = None,
      wv_URL = [], wv_Path = ''/pricing'', wv_SessionID = [], wv_Timestamp = - 62135596800\<rparr>"

definition sample_form :: "int FormEvent" where
  "sample_form =
     \<lparr>fe_WebsiteID = ''abc123'', fe_EventType = ''submit'', fe_FormID = ''signup'',
      fe_FormName = [], fe_URLPath = ''/signup'', fe_FieldName = [], fe_FieldType = [],
      fe_FieldIndex = 0, fe_TimeOnField = 0, fe_TimeSinceStart = 0, fe_ErrorMessage = [],
      fe_Success = True, fe_SessionID = [], fe_Timestamp = - 62135596800\<rparr>"

definition sample_deploy :: Deployment where
  "sample_deploy =
     \<lparr>dp_WebsiteID = ''abc123'', dp_DeployID = ''dpl_1'', dp_GitSha = [], dp_GitBranch = ''main'',
      dp_DeployURL = [], dp_Source = ''vercel''\<rparr>"

definition sample_bad_vital :: "int WebVital" where
  "sample_bad_vital = sample_vital\<lparr>wv_Metric := ''XYZ'', wv_Rating := ''terrible''\<rparr>"

definition sample_request :: "(string \<times> string) list \<Rightarrow> string \<Rightarrow> Request" where
  "sample_request hs addr =
     \<lparr>ReqMethod = ''GET'', ReqURL = ''/pricing'', ReqHeader = map_of hs, ReqBody = JNull,
      RemoteAddr = addr\<rparr>"

definition sample_config :: client_Config where
  "sample_config =
     \<lparr>cfg_Endpoint = ''https://collect.example.com'', cfg_APIKey = ''ent_xxx'',
      cfg_Timeout = 10 * 1000000000, cfg_Debug = False\<rparr>"

definition sample_client_event :: "int client_Event" where
  "sample_client_event =
     \<lparr>ce_Event = ''signup'', ce_Properties = None, ce_UserID = ''user_123'', ce_AnonymousID = [],
      ce_Timestamp = - 62135596800, ce_WebsiteID = []\<rparr>"

section \<open>Evaluating the library functions\<close>

lemma Sprintf_d_204: "Sprintf_d 204 = ''204''"
  by code_simp

lemma Sprintf_d_500: "Sprintf_d 500 = ''500''"
  by code_simp

lemma Atoi_30: "Atoi ''30'' = Some 30"
  by code_simp

lemma Atoi_soon: "Atoi ''soon'' = None"
  by code_simp

section \<open>The response classifier: the decision table\<close>

text \<open>
  C1 (as amended). \<open>handleResponse\<close> returns nil for 200 and 201, an
  \<open>AuthenticationError\<close> for 401; for 400 the \<open>validation_error\<close> carrying the
  \<open>error\<close> member of the body when the body decodes and that member is non-empty, and the
  generic \<open>bad_request\<close> when the body does not decode or has no such member; and for
  every status outside 2xx other than 400, 401 and 429 the \<open>request_failed\<close> error with
  the status in its message and in its status field. The function is total: a body that
  does not decode is one of the cases of the table.
\<close>

theorem handleResponse_classifies:
  "(RespStatusCode resp = 200 \<or> RespStatusCode resp = 201 \<longrightarrow> handleResponse u resp = None) \<and>
   (RespStatusCode resp = 401 \<longrightarrow> handleResponse u resp = Some (AuthenticationError [])) \<and>
   (RespStatusCode resp = 400 \<and> u (RespBody resp) = Some e \<and> e \<noteq> [] \<longrightarrow>
      handleResponse u resp = Some (EntrolyticsError ''validation_error'' e 400)) \<and>
   (RespStatusCode resp = 400 \<and> (u (RespBody resp) = None \<or> u (RespBody resp) = Some []) \<longrightarrow>
      handleResponse u resp = Some (EntrolyticsError ''bad_request'' ''invalid request'' 400)) \<and>
   (RespStatusCode resp \<notin> {200, 201, 400, 401, 429} \<and>
    \<not> (200 \<le> RespStatusCode resp \<and> RespStatusCode resp < 300) \<longrightarrow>
      handleResponse u resp =
        Some (EntrolyticsError ''request_failed''
                (''request failed with status '' @ Sprintf_d (RespStatusCode resp))
                (RespStatusCode resp)))"
  by (auto simp: handleResponse_def)

theorem handleResponse_classifies_witness:
  \<open>handleResponse sample_unmarshal (sample_response 200 [] []) = None \<and>
   handleResponse sample_unmarshal (sample_response 201 [] []) = None \<and>
   handleResponse sample_unmarshal (sample_response 401 [] []) = Some (AuthenticationError []) \<and>
   handleResponse sample_unmarshal (sample_response 400 [] ''{"error":"bad website"}'') =
     Some (EntrolyticsError ''validation_error'' ''bad website'' 400) \<and>
   handleResponse sample_unmarshal (sample_response 400 [] ''<html>'') =
     Some (EntrolyticsError ''bad_request'' ''invalid request'' 400) \<and>
   handleResponse sample_unmarshal (sample_response 400 [] ''{}'') =
     Some (EntrolyticsError ''bad_request'' ''invalid request'' 400) \<and>
   handleResponse sample_unmarshal (sample_response 500 [] []) =
     Some (EntrolyticsError ''request_failed'' ''request failed with status 500'' 500)\<close>
  using handleResponse_classifies [of "sample_response 200 [] []" sample_unmarshal]
    handleResponse_classifies [of "sample_response 201 [] []" sample_unmarshal]
    handleResponse_classifies [of "sample_response 401 [] []" sample_unmarshal]
    handleResponse_classifies
      [of \<open>sample_response 400 [] ''{"error":"bad website"}''\<close> sample_unmarshal "''bad website''"]
    handleResponse_classifies [of "sample_response 400 [] ''<html>''" sample_unmarshal]
    handleResponse_classifies [of "sample_response 400 [] ''{}''" sample_unmarshal]
    handleResponse_classifies [of "sample_response 500 [] []" sample_unmarshal]
  by (simp add: sample_response_def sample_unmarshal_def Sprintf_d_500)

text \<open>
  C1 as stated sends every status outside 2xx other than 200, 201, 400 and 401 to
  \<open>request_failed\<close>. Status 429 is such a status, and the classifier answers it with a
  \<open>RateLimitError\<close>.
\<close>

theorem handleResponse_429_not_request_failed:
  "RespStatusCode (sample_response 429 [] []) \<notin> {200, 201, 400, 401} \<and>
   \<not> (200 \<le> RespStatusCode (sample_response 429 [] []) \<and>
      RespStatusCode (sample_response 429 [] []) < 300) \<and>
   handleResponse sample_unmarshal (sample_response 429 [] []) = Some (RateLimitError [] 0) \<and>
   handleResponse sample_unmarshal (sample_response 429 [] []) \<noteq>
     Some (EntrolyticsError ''request_failed''
             (''request failed with status '' @ Sprintf_d (RespStatusCode (sample_response 429 [] [])))
             (RespStatusCode (sample_response 429 [] [])))"
  by (simp add: handleResponse_def sample_response_def Header_Get_def)

text \<open>
  C5. A response with status 429 gives a \<open>RateLimitError\<close>, whatever the headers hold.
  Its \<open>RetryAfter\<close> is the value \<open>strconv.Atoi\<close> reads from the \<open>Retry-After\<close> header when
  the header is there and \<open>Atoi\<close> accepts it, and 0 when the header is absent or \<open>Atoi\<close>
  rejects it.
\<close>

theorem handleResponse_rate_limit:
  "RespStatusCode resp = 429 \<Longrightarrow>
   \<exists>n. handleResponse u resp = Some (RateLimitError [] n) \<and>
       (RespHeader resp ''Retry-After'' = None \<longrightarrow> n = 0) \<and>
       (\<forall>ra v. RespHeader resp ''Retry-After'' = Some ra \<and> Atoi ra = Some v \<longrightarrow> n = v) \<and>
       (\<forall>ra. RespHeader resp ''Retry-After'' = Some ra \<and> Atoi ra = None \<longrightarrow> n = 0)"
  by (auto simp: handleResponse_def Header_Get_def Atoi_def strip_sign_def split: option.splits)

theorem handleResponse_rate_limit_witness:
  "handleResponse sample_unmarshal (sample_response 429 [(''Retry-After'', ''30'')] []) =
     Some (RateLimitError [] 30) \<and>
   handleResponse sample_unmarshal (sample_response 429 [] []) = Some (RateLimitError [] 0) \<and>
   handleResponse sample_unmarshal (sample_response 429 [(''Retry-After'', ''soon'')] []) =
     Some (RateLimitError [] 0)"
  using handleResponse_rate_limit [of "sample_response 429 [(''Retry-After'', ''30'')] []" sample_unmarshal]
    handleResponse_rate_limit [of "sample_response 429 [] []" sample_unmarshal]
    handleResponse_rate_limit [of "sample_response 429 [(''Retry-After'', ''soon'')] []" sample_unmarshal]
  by (auto simp: sample_response_def Atoi_30 Atoi_soon)

text \<open>
  C10. A status in 200..299 other than 200 and 201 is not a success for the classifier:
  it falls to the default branch and comes back as \<open>request_failed\<close> with that status.
\<close>

theorem handleResponse_other_2xx:
  "200 \<le> RespStatusCode resp \<Longrightarrow> RespStatusCode resp < 300 \<Longrightarrow>
   RespStatusCode resp \<noteq> 200 \<Longrightarrow> RespStatusCode resp \<noteq> 201 \<Longrightarrow>
   handleResponse u resp \<noteq> None \<and>
   handleResponse u resp =
     Some (EntrolyticsError ''request_failed''
             (''request failed with status '' @ Sprintf_d (RespStatusCode resp))
             (RespStatusCode resp))"
  by (simp add: handleResponse_def)

theorem handleResponse_other_2xx_witness:
  "handleResponse sample_unmarshal (sample_response 204 [] []) \<noteq> None \<and>
   handleResponse sample_unmarshal (sample_response 204 [] []) =
     Some (EntrolyticsError ''request_failed'' ''request failed with status 204'' 204)"
  using handleResponse_other_2xx [of "sample_response 204 [] []" sample_unmarshal]
  by (simp add: sample_response_def Sprintf_d_204)

section \<open>The shared send routine\<close>

lemma sent_simps [simp]:
  "sent [] = []" "sent (Do r # tr) = r # sent tr" "sent (Marshal p # tr) = sent tr"
  "sent (Printf # tr) = sent tr" "sent (xs @ ys) = sent xs @ sent ys"
  by (simp_all add: sent_def)

lemma marshalled_simps [simp]:
  "marshalled [] = []" "marshalled (Do r # tr) = marshalled tr"
  "marshalled (Marshal p # tr) = p # marshalled tr"
  "marshalled (Printf # tr) = marshalled tr" "marshalled (xs @ ys) = marshalled xs @ marshalled ys"
  by (simp_all add: marshalled_def)

lemma sendToEndpoint_marshalled:
  "marshalled (snd (sendToEndpoint w c ep p ua ip)) = [p]"
  by (simp add: sendToEndpoint_def Let_def split: sum.splits option.splits)

lemma sendToEndpoint_sent:
  assumes "req \<in> set (sent (snd (sendToEndpoint w c ep p ua ip)))"
  shows "json_Marshal (time_MarshalJSON w) p = Inr (ReqBody req)"
    and "ReqMethod req = ''POST''"
    and "ReqURL req = host c @ ep"
    and "ReqHeader req ''X-Forwarded-User-Agent'' = (if ua = [] then None else Some ua)"
    and "ReqHeader req ''X-Forwarded-For'' = (if ip = [] then None else Some ip)"
    and "ReqHeader req ''Authorization'' = Some (''Bearer '' @ apiKey c)"
    and "ReqHeader req ''Content-Type'' = Some ''application/json''"
    and "ReqHeader req ''User-Agent'' = Some (userAgent c)"
  using assms
  by (auto simp: sendToEndpoint_def Let_def Header_Set_def split: sum.splits option.splits if_splits)

lemma sendToEndpoint_sent_bodies:
  "map ReqBody (sent (snd (sendToEndpoint w c ep p ua ip))) =
   map ReqBody (sent (snd (sendToEndpoint w c ep p ua' ip')))"
  by (simp add: sendToEndpoint_def Let_def split: sum.splits option.splits)

lemma sendToEndpoint_sends:
  "json_Marshal (time_MarshalJSON w) p = Inr j \<Longrightarrow> http_NewRequest_error w (host c @ ep) = None \<Longrightarrow>
   length (sent (snd (sendToEndpoint w c ep p ua ip))) = 1"
  by (simp add: sendToEndpoint_def Let_def split: sum.splits option.splits)


lemma sample_client_apiKey: "apiKey sample_client = ''ent_xxx''"
  by (simp add: sample_client_def NewClient_def NewClientWithOptions_def)

section \<open>Validation before any effect\<close>

text \<open>
  C2. With a non-empty API key, a call whose record has an empty required field returns
  the error of the first such field in the order the method checks them, and its trace is
  empty: nothing was serialised and no request was made.
\<close>

theorem missing_required_field:
  fixes w :: "'t world"
  assumes "apiKey c \<noteq> []"
  shows
  "(ev_WebsiteID e = [] \<longrightarrow> Track w c e = (Some ErrWebsiteIDRequired, [])) \<and>
   (ev_WebsiteID e \<noteq> [] \<and> ev_Name e = [] \<longrightarrow> Track w c e = (Some ErrEventNameRequired, [])) \<and>
   (pv_WebsiteID pv = [] \<longrightarrow> PageView w c pv = (Some ErrWebsiteIDRequired, [])) \<and>
   (pv_WebsiteID pv \<noteq> [] \<and> pv_URL pv = [] \<longrightarrow> PageView w c pv = (Some ErrURLRequired, [])) \<and>
   (id_WebsiteID ident = [] \<longrightarrow> Identify w c ident = (Some ErrWebsiteIDRequired, [])) \<and>
   (id_WebsiteID ident \<noteq> [] \<and> id_UserID ident = [] \<longrightarrow>
      Identify w c ident = (Some ErrUserIDRequired, [])) \<and>
   (wv_WebsiteID vital = [] \<longrightarrow> TrackVital w c vital = (Some ErrWebsiteIDRequired, [])) \<and>
   (wv_WebsiteID vital \<noteq> [] \<and> wv_Metric vital = [] \<longrightarrow>
      TrackVital w c vital = (Some ErrVitalMetricRequired, [])) \<and>
   (wv_WebsiteID vital \<noteq> [] \<and> wv_Metric vital \<noteq> [] \<and> wv_Rating vital = [] \<longrightarrow>
      TrackVital w c vital = (Some ErrVitalRatingRequired, [])) \<and>
   (fe_WebsiteID fev = [] \<longrightarrow> TrackFormEvent w c fev = (Some ErrWebsiteIDRequired, [])) \<and>
   (fe_WebsiteID fev \<noteq> [] \<and> fe_FormID fev = [] \<longrightarrow>
      TrackFormEvent w c fev = (Some ErrFormIDRequired, [])) \<and>
   (fe_WebsiteID fev \<noteq> [] \<and> fe_FormID fev \<noteq> [] \<and> fe_EventType fev = [] \<longrightarrow>
      TrackFormEvent w c fev = (Some ErrFormEventTypeRequired, [])) \<and>
   (fe_WebsiteID fev \<noteq> [] \<and> fe_FormID fev \<noteq> [] \<and> fe_EventType fev \<noteq> [] \<and> fe_URLPath fev = [] \<longrightarrow>
      TrackFormEvent w c fev = (Some ErrURLPathRequired, [])) \<and>
   (dp_WebsiteID deploy = [] \<longrightarrow> SetDeployment w c deploy = (Some ErrWebsiteIDRequired, [])) \<and>
   (dp_WebsiteID deploy \<noteq> [] \<and> dp_DeployID deploy = [] \<longrightarrow>
      SetDeployment w c deploy = (Some ErrDeployIDRequired, []))"
  using assms
  by (simp add: Track_def TrackWithContext_def PageView_def PageViewWithContext_def
      Identify_def IdentifyWithContext_def TrackVital_def TrackVitalWithContext_def
      TrackFormEvent_def TrackFormEventWithContext_def SetDeployment_def
      SetDeploymentWithContext_def)

theorem missing_required_field_witness:
  "Track sample_world sample_client (sample_event\<lparr>ev_WebsiteID := []\<rparr>) = (Some ErrWebsiteIDRequired, []) \<and>
   Track sample_world sample_client (sample_event\<lparr>ev_Name := []\<rparr>) = (Some ErrEventNameRequired, []) \<and>
   PageView sample_world sample_client (sample_pageview\<lparr>pv_WebsiteID := []\<rparr>) = (Some ErrWebsiteIDRequired, []) \<and>
   PageView sample_world sample_client (sample_pageview\<lparr>pv_URL := []\<rparr>) = (Some ErrURLRequired, []) \<and>
   Identify sample_world sample_client (sample_identify\<lparr>id_WebsiteID := []\<rparr>) = (Some ErrWebsiteIDRequired, []) \<and>
   Identify sample_world sample_client (sample_identify\<lparr>id_UserID := []\<rparr>) = (Some ErrUserIDRequired, []) \<and>
   TrackVital sample_world sample_client (sample_vital\<lparr>wv_WebsiteID := []\<rparr>) = (Some ErrWebsiteIDRequired, []) \<and>
   TrackVital sample_world sample_client (sample_vital\<lparr>wv_Metric := []\<rparr>) = (Some ErrVitalMetricRequired, []) \<and>
   TrackVital sample_world sample_client (sample_vital\<lparr>wv_Rating := []\<rparr>) = (Some ErrVitalRatingRequired, []) \<and>
   TrackFormEvent sample_world sample_client (sample_form\<lparr>fe_WebsiteID := []\<rparr>) = (Some ErrWebsiteIDRequired, []) \<and>
   TrackFormEvent sample_world sample_client (sample_form\<lparr>fe_FormID := []\<rparr>) = (Some ErrFormIDRequired, []) \<and>
   TrackFormEvent sample_world sample_client (sample_form\<lparr>fe_EventType := []\<rparr>) = (Some ErrFormEventTypeRequired, []) \<and>
   TrackFormEvent sample_world sample_client (sample_form\<lparr>fe_URLPath := []\<rparr>) = (Some ErrURLPathRequired, []) \<and>
   SetDeployment sample_world sample_client (sample_deploy\<lparr>dp_WebsiteID := []\<rparr>) = (Some ErrWebsiteIDRequired, []) \<and>
   SetDeployment sample_world sample_client (sample_deploy\<lparr>dp_DeployID := []\<rparr>) = (Some ErrDeployIDRequired, [])"
proof -
  have k: "apiKey sample_client \<noteq> []"
    by (simp add: sample_client_apiKey)
  note a = missing_required_field [OF k, of "sample_event\<lparr>ev_WebsiteID := []\<rparr>" sample_world
      "sample_pageview\<lparr>pv_WebsiteID := []\<rparr>" "sample_identify\<lparr>id_WebsiteID := []\<rparr>"
      "sample_vital\<lparr>wv_WebsiteID := []\<rparr>" "sample_form\<lparr>fe_WebsiteID := []\<rparr>"
      "sample_deploy\<lparr>dp_WebsiteID := []\<rparr>"]
  note b = missing_required_field [OF k, of "sample_event\<lparr>ev_Name := []\<rparr>" sample_world
      "sample_pageview\<lparr>pv_URL := []\<rparr>" "sample_identify\<lparr>id_UserID := []\<rparr>"
      "sample_vital\<lparr>wv_Metric := []\<rparr>" "sample_form\<lparr>fe_FormID := []\<rparr>"
      "sample_deploy\<lparr>dp_DeployID := []\<rparr>"]
  note c = missing_required_field [OF k, of sample_event sample_world
      sample_pageview sample_identify
      "sample_vital\<lparr>wv_Rating := []\<rparr>" "sample_form\<lparr>fe_EventType := []\<rparr>"
      sample_deploy]
  note d = missing_required_field [OF k, of sample_event sample_world
      sample_pageview sample_identify
      sample_vital "sample_form\<lparr>fe_URLPath := []\<rparr>"
      sample_deploy]
  show ?thesis
    using a b c d
    by (simp add: sample_event_def sample_pageview_def sample_identify_def sample_vital_def
        sample_form_def sample_deploy_def LCP_def Good_def)
qed

section \<open>What the serialised payloads contain\<close>

lemma map_of_omit_string_other [simp]:
  "k \<noteq> k' \<Longrightarrow> map_of (omit_string k' s) k = None"
  by (simp add: omit_string_def)

lemma omit_map_cases:
  assumes "omit_map mt k m = Some d"
  shows "d = [] \<and> (m = None \<or> m = Some []) \<or>
         (\<exists>kvs j. m = Some kvs \<and> kvs \<noteq> [] \<and> marshal_value mt (VMap kvs) = Some j \<and> d = [(k, j)])"
  using assms
  by (auto simp: omit_map_def split: option.splits if_splits)

lemma marshal_trackPayload_members:
  assumes "marshal_trackPayload mt p = Some j"
  shows "json_member ''timestamp'' j = Some (JString (tp_Timestamp p))"
    and "json_member ''name'' j = Some (JString (tp_Name p))"
    and "json_member ''website'' j = Some (JString (tp_Website p))"
proof -
  from assms obtain d where d: "omit_map mt ''data'' (tp_Data p) = Some d"
    and j: "j = JObject
            ([(''website'', JString (tp_Website p)), (''name'', JString (tp_Name p))]
             @ d
             @ omit_string ''url'' (tp_URL p)
             @ omit_string ''referrer'' (tp_Referrer p)
             @ omit_string ''userId'' (tp_UserID p)
             @ omit_string ''sessionId'' (tp_SessionID p)
             @ [(''timestamp'', JString (tp_Timestamp p))])"
    by (auto simp: marshal_trackPayload_def split: option.splits)
  from omit_map_cases [OF d] have dk: "map_of d ''timestamp'' = None"
    by auto
  show "json_member ''timestamp'' j = Some (JString (tp_Timestamp p))"
    using dk by (simp add: j json_member_def map_add_def)
  show "json_member ''name'' j = Some (JString (tp_Name p))"
    by (simp add: j json_member_def)
  show "json_member ''website'' j = Some (JString (tp_Website p))"
    by (simp add: j json_member_def)
qed

lemma marshal_trackPayload_data:
  assumes "marshal_trackPayload mt p = Some j"
  shows "json_member ''data'' j =
     (case tp_Data p of None \<Rightarrow> None
      | Some kvs \<Rightarrow> if kvs = [] then None else marshal_value mt (VMap kvs))"
proof -
  from assms obtain d where d: "omit_map mt ''data'' (tp_Data p) = Some d"
    and j: "j = JObject
            ([(''website'', JString (tp_Website p)), (''name'', JString (tp_Name p))]
             @ d
             @ omit_string ''url'' (tp_URL p)
             @ omit_string ''referrer'' (tp_Referrer p)
             @ omit_string ''userId'' (tp_UserID p)
             @ omit_string ''sessionId'' (tp_SessionID p)
             @ [(''timestamp'', JString (tp_Timestamp p))])"
    by (auto simp: marshal_trackPayload_def split: option.splits)
  from omit_map_cases [OF d] show ?thesis
    by (auto simp: j json_member_def map_add_def)
qed

lemma json_Marshal_event_track:
  assumes "json_Marshal mt (EventPayload \<lparr>ep_Type = ty, ep_Payload = TrackPayload p\<rparr>) = Inr j"
  shows "\<exists>j'. marshal_trackPayload mt p = Some j' \<and>
              j = JObject [(''type'', JString ty), (''payload'', j')]"
  using assms
  by (auto simp: json_Marshal_def marshal_eventPayload_def split: option.splits)


lemma json_path_payload:
  "json_path [''payload'', k] (JObject [(''type'', t), (''payload'', j')]) = json_member k j'"
  by (simp add: json_member_def split: option.splits)

lemma sample_marshal_event:
  "json_Marshal (time_MarshalJSON sample_world)
     (EventPayload \<lparr>ep_Type = ''event'', ep_Payload = TrackPayload
        \<lparr>tp_Website = ''abc123'', tp_Name = ''purchase'',
         tp_Data = Some [(''revenue'', VFloat (Float 99.99)), (''currency'', VString ''USD'')],
         tp_URL = ''/checkout'', tp_Referrer = [], tp_UserID = ''user_123'', tp_SessionID = [],
         tp_Timestamp = ''2023-11-14T22:13:20Z''\<rparr>\<rparr>) =
   Inr (JObject [(''type'', JString ''event''),
      (''payload'', JObject [(''website'', JString ''abc123''), (''name'', JString ''purchase''),
         (''data'', JObject [(''revenue'', JFloat 99.99), (''currency'', JString ''USD'')]),
         (''url'', JString ''/checkout''), (''userId'', JString ''user_123''),
         (''timestamp'', JString ''2023-11-14T22:13:20Z'')])])"
  by (simp add: json_Marshal_def marshal_eventPayload_def marshal_trackPayload_def omit_map_def
      omit_string_def)

section \<open>The timestamp of a tracked event\<close>

text \<open>
  C3. A valid \<open>Track\<close> call hands exactly one payload to \<open>json.Marshal\<close>: the event
  envelope around a track payload whose \<open>Timestamp\<close> field, of type string, is
  \<open>Format(time.RFC3339)\<close> of the caller's timestamp when that is not the zero instant, and
  of \<open>time.Now().UTC()\<close> otherwise. Whenever that payload serialises, and so in the body
  of every request the call sends, the member \<open>payload.timestamp\<close> is present and is the
  JSON string holding that text.
\<close>

theorem Track_timestamp:
  fixes w :: "'t world"
  assumes "apiKey c \<noteq> []" and "ev_WebsiteID e \<noteq> []" and "ev_Name e \<noteq> []"
  shows "\<exists>p. marshalled (snd (Track w c e)) =
               [EventPayload \<lparr>ep_Type = ''event'', ep_Payload = TrackPayload p\<rparr>] \<and>
             tp_Timestamp p =
               time_Format_RFC3339 w
                 (if time_IsZero w (ev_Timestamp e) then time_UTC w (time_Now w 0)
                  else ev_Timestamp e) \<and>
             (\<forall>j. json_Marshal (time_MarshalJSON w)
                     (EventPayload \<lparr>ep_Type = ''event'', ep_Payload = TrackPayload p\<rparr>) = Inr j \<longrightarrow>
                  json_path [''payload'', ''timestamp''] j = Some (JString (tp_Timestamp p))) \<and>
             (\<forall>req \<in> set (sent (snd (Track w c e))).
                  json_path [''payload'', ''timestamp''] (ReqBody req) =
                    Some (JString (tp_Timestamp p)))"
proof -
  define ts where "ts = (if time_IsZero w (ev_Timestamp e) then time_UTC w (time_Now w 0)
                         else ev_Timestamp e)"
  define p :: "'t trackPayload" where
    "p = \<lparr>tp_Website = ev_WebsiteID e, tp_Name = ev_Name e, tp_Data = ev_Data e,
          tp_URL = ev_URL e, tp_Referrer = ev_Referrer e, tp_UserID = ev_UserID e,
          tp_SessionID = ev_SessionID e, tp_Timestamp = time_Format_RFC3339 w ts\<rparr>"
  define pl where "pl = EventPayload \<lparr>ep_Type = ''event'', ep_Payload = TrackPayload p\<rparr>"
  have run: "Track w c e = sendToEndpoint w c ''/api/send'' pl (ev_UserAgent e) (ev_IPAddress e)"
    using assms by (simp add: Track_def TrackWithContext_def send_def Let_def pl_def p_def ts_def)
  have m: "marshalled (snd (Track w c e)) = [pl]"
    by (simp add: run sendToEndpoint_marshalled)
  have t: "tp_Timestamp p = time_Format_RFC3339 w ts"
    by (simp add: p_def)
  have js: "json_path [''payload'', ''timestamp''] j = Some (JString (tp_Timestamp p))"
    if "json_Marshal (time_MarshalJSON w) pl = Inr j" for j
  proof -
    from that obtain j' where j': "marshal_trackPayload (time_MarshalJSON w) p = Some j'"
      and j: "j = JObject [(''type'', JString ''event''), (''payload'', j')]"
      unfolding pl_def by (blast dest: json_Marshal_event_track)
    show ?thesis
      by (simp only: j json_path_payload marshal_trackPayload_members(1) [OF j'])
  qed
  have rq: "json_path [''payload'', ''timestamp''] (ReqBody req) = Some (JString (tp_Timestamp p))"
    if "req \<in> set (sent (snd (Track w c e)))" for req
    using that js [of "ReqBody req"] sendToEndpoint_sent(1) [of req w c "''/api/send''" pl]
    by (simp add: run)
  show ?thesis
    using m t js rq unfolding pl_def ts_def by blast
qed

theorem Track_timestamp_witness:
  "length (sent (snd (Track sample_world sample_client sample_event))) = 1 \<and>
   json_path [''payload'', ''timestamp'']
     (ReqBody (hd (sent (snd (Track sample_world sample_client sample_event))))) =
     Some (JString ''2023-11-14T22:13:20Z'') \<and>
   length (sent (snd (Track sample_world sample_client (sample_event\<lparr>ev_Timestamp := 1600000000\<rparr>)))) = 1 \<and>
   json_path [''payload'', ''timestamp'']
     (ReqBody (hd (sent (snd (Track sample_world sample_client
        (sample_event\<lparr>ev_Timestamp := 1600000000\<rparr>)))))) =
     Some (JString ''2020-09-13T12:26:40Z'')"
proof -
  have k: "apiKey sample_client \<noteq> []"
    by (simp add: sample_client_apiKey)
  have one: "length (sent (snd (Track sample_world sample_client (sample_event\<lparr>ev_Timestamp := t\<rparr>)))) = 1"
    for t
    by (simp add: Track_def TrackWithContext_def send_def sendToEndpoint_def Let_def
        sample_client_apiKey sample_event_def sample_world_def json_Marshal_def
        marshal_eventPayload_def marshal_trackPayload_def omit_map_def)
  have one0: "length (sent (snd (Track sample_world sample_client sample_event))) = 1"
    using one [of "- 62135596800"] by (simp add: sample_event_def)
  have hd_in: "hd xs \<in> set xs" if "length xs = 1" for xs :: "Request list"
    using that by (cases xs) auto
  have a: "json_path [''payload'', ''timestamp'']
     (ReqBody (hd (sent (snd (Track sample_world sample_client sample_event))))) =
     Some (JString ''2023-11-14T22:13:20Z'')"
    using Track_timestamp [OF k, of sample_event sample_world] hd_in [OF one0]
    by (auto simp: sample_event_def sample_world_def sample_Format_def)
  have b: "json_path [''payload'', ''timestamp'']
     (ReqBody (hd (sent (snd (Track sample_world sample_client
        (sample_event\<lparr>ev_Timestamp := 1600000000\<rparr>)))))) =
     Some (JString ''2020-09-13T12:26:40Z'')"
    using Track_timestamp [OF k, of "sample_event\<lparr>ev_Timestamp := 1600000000\<rparr>" sample_world]
      hd_in [OF one [of 1600000000]]
    by (auto simp: sample_event_def sample_world_def sample_Format_def)
  show ?thesis
    using one0 one [of 1600000000] a b by blast
qed


lemma hd_in_set_length_1: "length xs = 1 \<Longrightarrow> hd xs \<in> set xs"
  by (cases xs) auto

section \<open>The payload of a page view\<close>

text \<open>
  On the wire the empty data map of a page view without title is left out: the field is
  tagged \<open>omitempty\<close>, so the serialised payload has no \<open>data\<close> member at all.
\<close>

lemma PageView_empty_title_omitted:
  fixes w :: "'t world"
  assumes "apiKey c \<noteq> []" and "pv_WebsiteID pv \<noteq> []" and "pv_URL pv \<noteq> []"
    and "pv_Title pv = []" and "req \<in> set (sent (snd (PageView w c pv)))"
  shows "json_path [''payload'', ''data''] (ReqBody req) = None"
proof -
  define ts where "ts = (if time_IsZero w (pv_Timestamp pv) then time_UTC w (time_Now w 0)
                         else pv_Timestamp pv)"
  define p :: "'t trackPayload" where
    "p = \<lparr>tp_Website = pv_WebsiteID pv, tp_Name = ''$pageview'', tp_Data = Some [],
          tp_URL = pv_URL pv, tp_Referrer = pv_Referrer pv, tp_UserID = pv_UserID pv,
          tp_SessionID = pv_SessionID pv, tp_Timestamp = time_Format_RFC3339 w ts\<rparr>"
  define pl where "pl = EventPayload \<lparr>ep_Type = ''event'', ep_Payload = TrackPayload p\<rparr>"
  have run: "PageView w c pv = sendToEndpoint w c ''/api/send'' pl (pv_UserAgent pv) (pv_IPAddress pv)"
    using assms(1-4)
    by (simp add: PageView_def PageViewWithContext_def send_def Let_def pl_def p_def ts_def)
  from assms(5) have "json_Marshal (time_MarshalJSON w) pl = Inr (ReqBody req)"
    using sendToEndpoint_sent(1) [of req w c "''/api/send''" pl] by (simp add: run)
  then obtain j' where j': "marshal_trackPayload (time_MarshalJSON w) p = Some j'"
    and j: "ReqBody req = JObject [(''type'', JString ''event''), (''payload'', j')]"
    unfolding pl_def by (blast dest: json_Marshal_event_track)
  show ?thesis
    by (simp only: j json_path_payload marshal_trackPayload_data [OF j']) (simp add: p_def)
qed

text \<open>
  C4 (as amended). A valid \<open>PageView\<close> call builds the event envelope around a track
  payload whose name is the fixed \<open>$pageview\<close> and whose data map is empty when the title
  is empty and holds the single entry \<open>title\<close> otherwise. In the body of every request
  sent the name member is \<open>$pageview\<close>; for a non-empty title the data member is the
  object with that one member, and for an empty title the payload has no data member: the
  empty map is not serialised as an empty object.
\<close>

theorem PageView_name_and_data:
  fixes w :: "'t world"
  assumes "apiKey c \<noteq> []" and "pv_WebsiteID pv \<noteq> []" and "pv_URL pv \<noteq> []"
  shows "\<exists>p. marshalled (snd (PageView w c pv)) =
               [EventPayload \<lparr>ep_Type = ''event'', ep_Payload = TrackPayload p\<rparr>] \<and>
             tp_Name p = ''$pageview'' \<and>
             (pv_Title pv = [] \<longrightarrow> tp_Data p = Some []) \<and>
             (pv_Title pv \<noteq> [] \<longrightarrow> tp_Data p = Some [(''title'', VString (pv_Title pv))]) \<and>
             (\<forall>req \<in> set (sent (snd (PageView w c pv))).
                  json_path [''payload'', ''name''] (ReqBody req) = Some (JString ''$pageview'') \<and>
                  (pv_Title pv \<noteq> [] \<longrightarrow>
                     json_path [''payload'', ''data''] (ReqBody req) =
                       Some (JObject [(''title'', JString (pv_Title pv))])) \<and>
                  (pv_Title pv = [] \<longrightarrow>
                     json_path [''payload'', ''data''] (ReqBody req) = None))"
proof -
  define ts where "ts = (if time_IsZero w (pv_Timestamp pv) then time_UTC w (time_Now w 0)
                         else pv_Timestamp pv)"
  define data :: "(string \<times> 't go_value) list" where
    "data = (if pv_Title pv \<noteq> [] then [(''title'', VString (pv_Title pv))] else [])"
  define p :: "'t trackPayload" where
    "p = \<lparr>tp_Website = pv_WebsiteID pv, tp_Name = ''$pageview'', tp_Data = Some data,
          tp_URL = pv_URL pv, tp_Referrer = pv_Referrer pv, tp_UserID = pv_UserID pv,
          tp_SessionID = pv_SessionID pv, tp_Timestamp = time_Format_RFC3339 w ts\<rparr>"
  define pl where "pl = EventPayload \<lparr>ep_Type = ''event'', ep_Payload = TrackPayload p\<rparr>"
  have run: "PageView w c pv = sendToEndpoint w c ''/api/send'' pl (pv_UserAgent pv) (pv_IPAddress pv)"
    using assms
    by (simp add: PageView_def PageViewWithContext_def send_def Let_def pl_def p_def ts_def data_def)
  have m: "marshalled (snd (PageView w c pv)) = [pl]"
    by (simp add: run sendToEndpoint_marshalled)
  have n: "tp_Name p = ''$pageview''"
    by (simp add: p_def)
  have d0: "pv_Title pv = [] \<longrightarrow> tp_Data p = Some []"
    by (simp add: p_def data_def)
  have d1: "pv_Title pv \<noteq> [] \<longrightarrow> tp_Data p = Some [(''title'', VString (pv_Title pv))]"
    by (simp add: p_def data_def)
  have rq: "json_path [''payload'', ''name''] (ReqBody req) = Some (JString ''$pageview'') \<and>
            (pv_Title pv \<noteq> [] \<longrightarrow>
               json_path [''payload'', ''data''] (ReqBody req) =
                 Some (JObject [(''title'', JString (pv_Title pv))])) \<and>
            (pv_Title pv = [] \<longrightarrow> json_path [''payload'', ''data''] (ReqBody req) = None)"
    if r: "req \<in> set (sent (snd (PageView w c pv)))" for req
  proof -
    from r have "json_Marshal (time_MarshalJSON w) pl = Inr (ReqBody req)"
      using sendToEndpoint_sent(1) [of req w c "''/api/send''" pl] by (simp add: run)
    then obtain j' where j': "marshal_trackPayload (time_MarshalJSON w) p = Some j'"
      and j: "ReqBody req = JObject [(''type'', JString ''event''), (''payload'', j')]"
      unfolding pl_def by (blast dest: json_Marshal_event_track)
    have a: "json_path [''payload'', ''name''] (ReqBody req) = Some (JString ''$pageview'')"
      by (simp only: j json_path_payload marshal_trackPayload_members(2) [OF j'] n)
    have b: "json_path [''payload'', ''data''] (ReqBody req) =
               Some (JObject [(''title'', JString (pv_Title pv))])" if "pv_Title pv \<noteq> []"
      using that
      by (simp only: j json_path_payload marshal_trackPayload_data [OF j'])
        (simp add: p_def data_def)
    have c: "json_path [''payload'', ''data''] (ReqBody req) = None" if "pv_Title pv = []"
      using PageView_empty_title_omitted [OF assms that r] .
    show ?thesis using a b c by blast
  qed
  show ?thesis
    using m n d0 d1 rq unfolding pl_def by blast
qed

text \<open>
  C4 as stated fails for the envelope that goes out: a page view with an empty title is
  sent with a payload that has no \<open>data\<close> member, not with \<open>data\<close> as the empty object.
\<close>

theorem PageView_empty_title_no_data_member:
  "pv_Title (sample_pageview\<lparr>pv_Title := []\<rparr>) = [] \<and>
   sent (snd (PageView sample_world sample_client (sample_pageview\<lparr>pv_Title := []\<rparr>))) =
     [\<lparr>ReqMethod = ''POST'', ReqURL = ''https://entrolytics.click/api/send'',
       ReqHeader = [''Authorization'' \<mapsto> ''Bearer ent_xxx'',
                    ''Content-Type'' \<mapsto> ''application/json'',
                    ''User-Agent'' \<mapsto> ''entrolytics-go/2.1.0'',
                    ''X-Forwarded-User-Agent'' \<mapsto> ''Mozilla/5.0'',
                    ''X-Forwarded-For'' \<mapsto> ''192.168.1.1''],
       ReqBody = JObject [(''type'', JString ''event''),
         (''payload'', JObject [(''website'', JString ''abc123''), (''name'', JString ''$pageview''),
            (''url'', JString ''/pricing''), (''referrer'', JString ''https://google.com''),
            (''timestamp'', JString ''2020-09-13T12:26:40Z'')])],
       RemoteAddr = []\<rparr>] \<and>
   json_path [''payload'', ''data'']
     (ReqBody (hd (sent (snd (PageView sample_world sample_client
        (sample_pageview\<lparr>pv_Title := []\<rparr>)))))) = None \<and>
   json_path [''payload'', ''data'']
     (ReqBody (hd (sent (snd (PageView sample_world sample_client
        (sample_pageview\<lparr>pv_Title := []\<rparr>)))))) \<noteq> Some (JObject [])"
  by (simp add: PageView_def PageViewWithContext_def send_def sendToEndpoint_def Let_def
      sample_client_def NewClient_def NewClientWithOptions_def DefaultHost_def Version_def
      sample_pageview_def sample_world_def sample_Format_def json_Marshal_def
      marshal_eventPayload_def marshal_trackPayload_def omit_map_def omit_string_def
      Header_Set_def json_member_def)

theorem PageView_name_and_data_witness:
  "length (sent (snd (PageView sample_world sample_client sample_pageview))) = 1 \<and>
   json_path [''payload'', ''name'']
     (ReqBody (hd (sent (snd (PageView sample_world sample_client sample_pageview))))) =
     Some (JString ''$pageview'') \<and>
   json_path [''payload'', ''data'']
     (ReqBody (hd (sent (snd (PageView sample_world sample_client sample_pageview))))) =
     Some (JObject [(''title'', JString ''Pricing'')]) \<and>
   (\<exists>p. marshalled (snd (PageView sample_world sample_client (sample_pageview\<lparr>pv_Title := []\<rparr>))) =
           [EventPayload \<lparr>ep_Type = ''event'', ep_Payload = TrackPayload p\<rparr>] \<and>
         tp_Name p = ''$pageview'' \<and> tp_Data p = Some []) \<and>
   length (sent (snd (PageView sample_world sample_client (sample_pageview\<lparr>pv_Title := []\<rparr>)))) = 1 \<and>
   json_path [''payload'', ''name'']
     (ReqBody (hd (sent (snd (PageView sample_world sample_client
        (sample_pageview\<lparr>pv_Title := []\<rparr>)))))) = Some (JString ''$pageview'') \<and>
   json_path [''payload'', ''data'']
     (ReqBody (hd (sent (snd (PageView sample_world sample_client
        (sample_pageview\<lparr>pv_Title := []\<rparr>)))))) = None"
proof -
  have k: "apiKey sample_client \<noteq> []"
    by (simp add: sample_client_apiKey)
  have one: "length (sent (snd (PageView sample_world sample_client sample_pageview))) = 1"
    by (simp add: PageView_def PageViewWithContext_def send_def sendToEndpoint_def Let_def
        sample_client_apiKey sample_pageview_def sample_world_def json_Marshal_def
        marshal_eventPayload_def marshal_trackPayload_def omit_map_def)
  have one': "length (sent (snd (PageView sample_world sample_client
      (sample_pageview\<lparr>pv_Title := []\<rparr>)))) = 1"
    by (simp add: PageView_def PageViewWithContext_def send_def sendToEndpoint_def Let_def
        sample_client_apiKey sample_pageview_def sample_world_def json_Marshal_def
        marshal_eventPayload_def marshal_trackPayload_def omit_map_def)
  have a: "json_path [''payload'', ''name'']
     (ReqBody (hd (sent (snd (PageView sample_world sample_client sample_pageview))))) =
     Some (JString ''$pageview'') \<and>
   json_path [''payload'', ''data'']
     (ReqBody (hd (sent (snd (PageView sample_world sample_client sample_pageview))))) =
     Some (JObject [(''title'', JString ''Pricing'')])"
    using PageView_name_and_data [OF k, of sample_pageview sample_world]
      hd_in_set_length_1 [OF one]
    by (auto simp: sample_pageview_def)
  have b: "\<exists>p. marshalled (snd (PageView sample_world sample_client (sample_pageview\<lparr>pv_Title := []\<rparr>))) =
           [EventPayload \<lparr>ep_Type = ''event'', ep_Payload = TrackPayload p\<rparr>] \<and>
         tp_Name p = ''$pageview'' \<and> tp_Data p = Some []"
    using PageView_name_and_data [OF k, of "sample_pageview\<lparr>pv_Title := []\<rparr>" sample_world]
    by (auto simp: sample_pageview_def)
  have c: "json_path [''payload'', ''name'']
     (ReqBody (hd (sent (snd (PageView sample_world sample_client
        (sample_pageview\<lparr>pv_Title := []\<rparr>)))))) = Some (JString ''$pageview'') \<and>
   json_path [''payload'', ''data'']
     (ReqBody (hd (sent (snd (PageView sample_world sample_client
        (sample_pageview\<lparr>pv_Title := []\<rparr>)))))) = None"
    using PageView_name_and_data [OF k, of "sample_pageview\<lparr>pv_Title := []\<rparr>" sample_world]
      hd_in_set_length_1 [OF one']
    by (auto simp: sample_pageview_def)
  show ?thesis
    using one one' a b c by blast
qed

section \<open>Forwarded user agent and address\<close>

lemma Track_run:
  fixes w :: "'t world"
  assumes "apiKey c \<noteq> []" and "ev_WebsiteID e \<noteq> []" and "ev_Name e \<noteq> []"
  shows "\<exists>pl. (\<forall>ua ip. Track w c (e\<lparr>ev_UserAgent := ua, ev_IPAddress := ip\<rparr>) =
                  sendToEndpoint w c ''/api/send'' pl ua ip)"
  using assms
  by (cases "time_IsZero w (ev_Timestamp e)")
    (auto simp: Track_def TrackWithContext_def send_def Let_def)

lemma PageView_run:
  fixes w :: "'t world"
  assumes "apiKey c \<noteq> []" and "pv_WebsiteID pv \<noteq> []" and "pv_URL pv \<noteq> []"
  shows "\<exists>pl. (\<forall>ua ip. PageView w c (pv\<lparr>pv_UserAgent := ua, pv_IPAddress := ip\<rparr>) =
                  sendToEndpoint w c ''/api/send'' pl ua ip)"
  using assms
  by (cases "time_IsZero w (pv_Timestamp pv)")
    (auto simp: PageView_def PageViewWithContext_def send_def Let_def)

lemma Track_invalid:
  "apiKey c = [] \<or> ev_WebsiteID e = [] \<or> ev_Name e = [] \<Longrightarrow> snd (Track w c e) = []"
  by (auto simp: Track_def TrackWithContext_def)

lemma PageView_invalid:
  "apiKey c = [] \<or> pv_WebsiteID pv = [] \<or> pv_URL pv = [] \<Longrightarrow> snd (PageView w c pv) = []"
  by (auto simp: PageView_def PageViewWithContext_def)

lemma Track_forwarding:
  fixes w :: "'t world"
  shows "(\<forall>req \<in> set (sent (snd (Track w c e))).
        ReqHeader req ''X-Forwarded-User-Agent'' =
          (if ev_UserAgent e = [] then None else Some (ev_UserAgent e)) \<and>
        ReqHeader req ''X-Forwarded-For'' =
          (if ev_IPAddress e = [] then None else Some (ev_IPAddress e))) \<and>
     marshalled (snd (Track w c (e\<lparr>ev_UserAgent := ua, ev_IPAddress := ip\<rparr>))) =
       marshalled (snd (Track w c e)) \<and>
     map ReqBody (sent (snd (Track w c (e\<lparr>ev_UserAgent := ua, ev_IPAddress := ip\<rparr>)))) =
       map ReqBody (sent (snd (Track w c e)))"
proof (cases "apiKey c = [] \<or> ev_WebsiteID e = [] \<or> ev_Name e = []")
  case True
  then have "snd (Track w c e) = []"
    and "snd (Track w c (e\<lparr>ev_UserAgent := ua, ev_IPAddress := ip\<rparr>)) = []"
    by (simp_all add: Track_invalid)
  then show ?thesis by simp
next
  case False
  then obtain pl where pl: "\<And>ua ip. Track w c (e\<lparr>ev_UserAgent := ua, ev_IPAddress := ip\<rparr>) =
      sendToEndpoint w c ''/api/send'' pl ua ip"
    using Track_run [of c e w] by blast
  have e: "Track w c e = sendToEndpoint w c ''/api/send'' pl (ev_UserAgent e) (ev_IPAddress e)"
    by (simp add: pl [symmetric])
  show ?thesis
    using sendToEndpoint_sent(4,5) [of _ w c "''/api/send''" pl "ev_UserAgent e" "ev_IPAddress e"]
      sendToEndpoint_sent_bodies [of w c "''/api/send''" pl ua ip "ev_UserAgent e" "ev_IPAddress e"]
    by (simp add: pl e sendToEndpoint_marshalled)
qed

lemma PageView_forwarding:
  fixes w :: "'t world"
  shows "(\<forall>req \<in> set (sent (snd (PageView w c pv))).
        ReqHeader req ''X-Forwarded-User-Agent'' =
          (if pv_UserAgent pv = [] then None else Some (pv_UserAgent pv)) \<and>
        ReqHeader req ''X-Forwarded-For'' =
          (if pv_IPAddress pv = [] then None else Some (pv_IPAddress pv))) \<and>
     marshalled (snd (PageView w c (pv\<lparr>pv_UserAgent := ua, pv_IPAddress := ip\<rparr>))) =
       marshalled (snd (PageView w c pv)) \<and>
     map ReqBody (sent (snd (PageView w c (pv\<lparr>pv_UserAgent := ua, pv_IPAddress := ip\<rparr>)))) =
       map ReqBody (sent (snd (PageView w c pv)))"
proof (cases "apiKey c = [] \<or> pv_WebsiteID pv = [] \<or> pv_URL pv = []")
  case True
  then have "snd (PageView w c pv) = []"
    and "snd (PageView w c (pv\<lparr>pv_UserAgent := ua, pv_IPAddress := ip\<rparr>)) = []"
    by (simp_all add: PageView_invalid)
  then show ?thesis by simp
next
  case False
  then obtain pl where pl: "\<And>ua ip. PageView w c (pv\<lparr>pv_UserAgent := ua, pv_IPAddress := ip\<rparr>) =
      sendToEndpoint w c ''/api/send'' pl ua ip"
    using PageView_run [of c pv w] by blast
  have e: "PageView w c pv = sendToEndpoint w c ''/api/send'' pl (pv_UserAgent pv) (pv_IPAddress pv)"
    by (simp add: pl [symmetric])
  show ?thesis
    using sendToEndpoint_sent(4,5) [of _ w c "''/api/send''" pl "pv_UserAgent pv" "pv_IPAddress pv"]
      sendToEndpoint_sent_bodies [of w c "''/api/send''" pl ua ip "pv_UserAgent pv" "pv_IPAddress pv"]
    by (simp add: pl e sendToEndpoint_marshalled)
qed

lemma Identify_forwarding:
  fixes w :: "'t world"
  shows "\<forall>req \<in> set (sent (snd (Identify w c ident))).
        ReqHeader req ''X-Forwarded-User-Agent'' = None \<and> ReqHeader req ''X-Forwarded-For'' = None"
proof (cases "apiKey c = [] \<or> id_WebsiteID ident = [] \<or> id_UserID ident = []")
  case True
  then have "snd (Identify w c ident) = []"
    by (auto simp: Identify_def IdentifyWithContext_def)
  then show ?thesis by simp
next
  case False
  then obtain pl where "Identify w c ident = sendToEndpoint w c ''/api/send'' pl [] []"
    by (cases "time_IsZero w (id_Timestamp ident)")
      (auto simp: Identify_def IdentifyWithContext_def send_def Let_def)
  then show ?thesis
    using sendToEndpoint_sent(4,5) [of _ w c "''/api/send''" pl "[]" "[]"] by simp
qed

text \<open>
  C6. For \<open>Track\<close> and \<open>PageView\<close>, every request sent carries the caller's
  \<open>UserAgent\<close> in \<open>X-Forwarded-User-Agent\<close> and the caller's \<open>IPAddress\<close> in
  \<open>X-Forwarded-For\<close> when they are non-empty, and has no such header when they are
  empty. The payload given to \<open>json.Marshal\<close> and the bodies of the requests sent do not
  depend on these two fields: replacing them by any other strings leaves both unchanged.
  \<open>Identify\<close> sets neither header.
\<close>

theorem forwarding_headers:
  fixes w :: "'t world"
  shows "((\<forall>req \<in> set (sent (snd (Track w c e))).
        ReqHeader req ''X-Forwarded-User-Agent'' =
          (if ev_UserAgent e = [] then None else Some (ev_UserAgent e)) \<and>
        ReqHeader req ''X-Forwarded-For'' =
          (if ev_IPAddress e = [] then None else Some (ev_IPAddress e))) \<and>
     marshalled (snd (Track w c (e\<lparr>ev_UserAgent := ua, ev_IPAddress := ip\<rparr>))) =
       marshalled (snd (Track w c e)) \<and>
     map ReqBody (sent (snd (Track w c (e\<lparr>ev_UserAgent := ua, ev_IPAddress := ip\<rparr>)))) =
       map ReqBody (sent (snd (Track w c e)))) \<and>
    ((\<forall>req \<in> set (sent (snd (PageView w c pv))).
        ReqHeader req ''X-Forwarded-User-Agent'' =
          (if pv_UserAgent pv = [] then None else Some (pv_UserAgent pv)) \<and>
        ReqHeader req ''X-Forwarded-For'' =
          (if pv_IPAddress pv = [] then None else Some (pv_IPAddress pv))) \<and>
     marshalled (snd (PageView w c (pv\<lparr>pv_UserAgent := ua, pv_IPAddress := ip\<rparr>))) =
       marshalled (snd (PageView w c pv)) \<and>
     map ReqBody (sent (snd (PageView w c (pv\<lparr>pv_UserAgent := ua, pv_IPAddress := ip\<rparr>)))) =
       map ReqBody (sent (snd (PageView w c pv)))) \<and>
    (\<forall>req \<in> set (sent (snd (Identify w c ident))).
        ReqHeader req ''X-Forwarded-User-Agent'' = None \<and> ReqHeader req ''X-Forwarded-For'' = None)"
  by (rule conjI [OF Track_forwarding conjI [OF PageView_forwarding Identify_forwarding]])


theorem forwarding_headers_witness:
  "length (sent (snd (Track sample_world sample_client sample_event))) = 1 \<and>
   ReqHeader (hd (sent (snd (Track sample_world sample_client sample_event))))
     ''X-Forwarded-User-Agent'' = Some ''Mozilla/5.0'' \<and>
   ReqHeader (hd (sent (snd (Track sample_world sample_client sample_event))))
     ''X-Forwarded-For'' = Some ''192.168.1.1'' \<and>
   map ReqBody (sent (snd (Track sample_world sample_client
       (sample_event\<lparr>ev_UserAgent := [], ev_IPAddress := []\<rparr>)))) =
     map ReqBody (sent (snd (Track sample_world sample_client sample_event))) \<and>
   length (sent (snd (PageView sample_world sample_client
       (sample_pageview\<lparr>pv_UserAgent := [], pv_IPAddress := []\<rparr>)))) = 1 \<and>
   ReqHeader (hd (sent (snd (PageView sample_world sample_client
       (sample_pageview\<lparr>pv_UserAgent := [], pv_IPAddress := []\<rparr>)))))
     ''X-Forwarded-User-Agent'' = None \<and>
   ReqHeader (hd (sent (snd (PageView sample_world sample_client
       (sample_pageview\<lparr>pv_UserAgent := [], pv_IPAddress := []\<rparr>)))))
     ''X-Forwarded-For'' = None \<and>
   length (sent (snd (Identify sample_world sample_client sample_identify))) = 1 \<and>
   ReqHeader (hd (sent (snd (Identify sample_world sample_client sample_identify))))
     ''X-Forwarded-User-Agent'' = None \<and>
   ReqHeader (hd (sent (snd (Identify sample_world sample_client sample_identify))))
     ''X-Forwarded-For'' = None"
proof -
  have t: "length (sent (snd (Track sample_world sample_client sample_event))) = 1"
    by (simp add: Track_def TrackWithContext_def send_def sendToEndpoint_def Let_def
        sample_client_apiKey sample_event_def sample_world_def json_Marshal_def
        marshal_eventPayload_def marshal_trackPayload_def omit_map_def)
  have p: "length (sent (snd (PageView sample_world sample_client
       (sample_pageview\<lparr>pv_UserAgent := [], pv_IPAddress := []\<rparr>)))) = 1"
    by (simp add: PageView_def PageViewWithContext_def send_def sendToEndpoint_def Let_def
        sample_client_apiKey sample_pageview_def sample_world_def json_Marshal_def
        marshal_eventPayload_def marshal_trackPayload_def omit_map_def)
  have i: "length (sent (snd (Identify sample_world sample_client sample_identify))) = 1"
    by (simp add: Identify_def IdentifyWithContext_def send_def sendToEndpoint_def Let_def
        sample_client_apiKey sample_identify_def sample_world_def json_Marshal_def
        marshal_eventPayload_def marshal_identifyPayload_def omit_map_def)
  note f = forwarding_headers [where w = sample_world and c = sample_client
      and e = sample_event and ua = "[]" and ip = "[]"
      and pv = "sample_pageview\<lparr>pv_UserAgent := [], pv_IPAddress := []\<rparr>"
      and ident = sample_identify]
  have a: "ReqHeader (hd (sent (snd (Track sample_world sample_client sample_event))))
     ''X-Forwarded-User-Agent'' = Some ''Mozilla/5.0'' \<and>
   ReqHeader (hd (sent (snd (Track sample_world sample_client sample_event))))
     ''X-Forwarded-For'' = Some ''192.168.1.1''"
    using f hd_in_set_length_1 [OF t] by (auto simp: sample_event_def)
  have b: "map ReqBody (sent (snd (Track sample_world sample_client
       (sample_event\<lparr>ev_UserAgent := [], ev_IPAddress := []\<rparr>)))) =
     map ReqBody (sent (snd (Track sample_world sample_client sample_event)))"
    using f by blast
  have c: "ReqHeader (hd (sent (snd (PageView sample_world sample_client
       (sample_pageview\<lparr>pv_UserAgent := [], pv_IPAddress := []\<rparr>)))))
     ''X-Forwarded-User-Agent'' = None \<and>
   ReqHeader (hd (sent (snd (PageView sample_world sample_client
       (sample_pageview\<lparr>pv_UserAgent := [], pv_IPAddress := []\<rparr>)))))
     ''X-Forwarded-For'' = None"
    using f hd_in_set_length_1 [OF p] by (auto simp: sample_pageview_def)
  have d: "ReqHeader (hd (sent (snd (Identify sample_world sample_client sample_identify))))
     ''X-Forwarded-User-Agent'' = None \<and>
   ReqHeader (hd (sent (snd (Identify sample_world sample_client sample_identify))))
     ''X-Forwarded-For'' = None"
    using f hd_in_set_length_1 [OF i] by blast
  show ?thesis
    using t p i a b c d by blast
qed

section \<open>Validation of a web vital\<close>

lemma handleResponse_codes:
  "handleResponse u resp = Some (EntrolyticsError code msg st) \<Longrightarrow>
   code \<in> {''validation_error'', ''bad_request'', ''request_failed''}"
  by (auto simp: handleResponse_def Let_def split: if_splits option.splits)

lemma sendToEndpoint_not_required:
  "fst (sendToEndpoint w c ep pl ua ip) \<noteq> Some ErrAPIKeyRequired"
  "fst (sendToEndpoint w c ep pl ua ip) \<noteq> Some ErrWebsiteIDRequired"
  "fst (sendToEndpoint w c ep pl ua ip) \<noteq> Some ErrVitalMetricRequired"
  "fst (sendToEndpoint w c ep pl ua ip) \<noteq> Some ErrVitalRatingRequired"
  by (auto simp: sendToEndpoint_def Let_def ErrAPIKeyRequired_def ErrWebsiteIDRequired_def
      ErrVitalMetricRequired_def ErrVitalRatingRequired_def
      split: sum.splits option.splits dest!: handleResponse_codes)

text \<open>
  C7 (as amended). With a non-empty API key, \<open>TrackVital\<close> fails with one of its
  validation errors, before any serialisation or request, when the website ID, the metric
  or the rating is the empty string. When all three are non-empty the call is not
  rejected by validation, whatever the metric and the rating are: it hands
  \<open>json.Marshal\<close> a vital payload that carries them unchanged.
\<close>

theorem TrackVital_validation:
  fixes w :: "'t world"
  assumes "apiKey c \<noteq> []"
  shows "(wv_WebsiteID v = [] \<or> wv_Metric v = [] \<or> wv_Rating v = [] \<longrightarrow>
           fst (TrackVital w c v) \<in>
             {Some ErrWebsiteIDRequired, Some ErrVitalMetricRequired, Some ErrVitalRatingRequired} \<and>
           snd (TrackVital w c v) = []) \<and>
         (wv_WebsiteID v \<noteq> [] \<and> wv_Metric v \<noteq> [] \<and> wv_Rating v \<noteq> [] \<longrightarrow>
           fst (TrackVital w c v) \<notin>
             {Some ErrAPIKeyRequired, Some ErrWebsiteIDRequired, Some ErrVitalMetricRequired,
              Some ErrVitalRatingRequired} \<and>
           (\<exists>p. marshalled (snd (TrackVital w c v)) = [VitalPayload p] \<and>
                vp_Metric p = wv_Metric v \<and> vp_Rating p = wv_Rating v))"
  using assms
  by (auto simp: TrackVital_def TrackVitalWithContext_def Let_def sendToEndpoint_marshalled
      sendToEndpoint_not_required)

text \<open>
  C7 as stated fails: a vital whose metric and rating are outside the enumerated values is
  accepted, serialised and sent.
\<close>

theorem TrackVital_accepts_unlisted_metric:
  "wv_Metric sample_bad_vital \<notin> {LCP, INP, CLS, TTFB, FCP} \<and>
   wv_Rating sample_bad_vital \<notin> {Good, NeedsImprovement, Poor} \<and>
   fst (TrackVital sample_world sample_client sample_bad_vital) = None \<and>
   length (sent (snd (TrackVital sample_world sample_client sample_bad_vital))) = 1"
  by (simp add: sample_bad_vital_def sample_vital_def LCP_def INP_def CLS_def TTFB_def FCP_def
      Good_def NeedsImprovement_def Poor_def TrackVital_def TrackVitalWithContext_def
      sendToEndpoint_def Let_def sample_client_apiKey sample_world_def json_Marshal_def
      marshal_vitalPayload_def omit_float_def omit_map_def omit_string_def
      handleResponse_def sample_response_def)

theorem TrackVital_validation_witness:
  "fst (TrackVital sample_world sample_client (sample_vital\<lparr>wv_Metric := []\<rparr>)) \<in>
     {Some ErrWebsiteIDRequired, Some ErrVitalMetricRequired, Some ErrVitalRatingRequired} \<and>
   snd (TrackVital sample_world sample_client (sample_vital\<lparr>wv_Metric := []\<rparr>)) = [] \<and>
   fst (TrackVital sample_world sample_client sample_bad_vital) \<notin>
     {Some ErrAPIKeyRequired, Some ErrWebsiteIDRequired, Some ErrVitalMetricRequired,
      Some ErrVitalRatingRequired} \<and>
   (\<exists>p. marshalled (snd (TrackVital sample_world sample_client sample_bad_vital)) = [VitalPayload p] \<and>
        vp_Metric p = ''XYZ'' \<and> vp_Rating p = ''terrible'')"
proof -
  have k: "apiKey sample_client \<noteq> []"
    by (simp add: sample_client_apiKey)
  show ?thesis
    using TrackVital_validation [OF k, of "sample_vital\<lparr>wv_Metric := []\<rparr>" sample_world]
      TrackVital_validation [OF k, of sample_bad_vital sample_world]
    by (simp add: sample_bad_vital_def sample_vital_def LCP_def Good_def)
qed

section \<open>The client address of an inbound request\<close>

lemma prefix_single [simp]: "prefix [c] (d # s) \<longleftrightarrow> c = d"
  by (auto simp: prefix_def)

lemma Index_from_char:
  "(c \<notin> set s \<and> Index_from i s [c] = - 1) \<or>
   (\<exists>pre post. s = pre @ c # post \<and> c \<notin> set pre \<and> Index_from i s [c] = int (i + length pre))"
proof (induction s arbitrary: i)
  case Nil
  then show ?case by simp
next
  case (Cons d s)
  show ?case
  proof (cases "c = d")
    case True
    then have "d # s = [] @ c # s \<and> c \<notin> set [] \<and> Index_from i (d # s) [c] = int (i + length ([]::string))"
      by simp
    then show ?thesis by blast
  next
    case False
    from Cons.IH [of "Suc i"] show ?thesis
    proof
      assume "c \<notin> set s \<and> Index_from (Suc i) s [c] = - 1"
      with False show ?thesis by simp
    next
      assume "\<exists>pre post. s = pre @ c # post \<and> c \<notin> set pre \<and>
                Index_from (Suc i) s [c] = int (Suc i + length pre)"
      then obtain pre post where "s = pre @ c # post" "c \<notin> set pre"
        "Index_from (Suc i) s [c] = int (Suc i + length pre)" by blast
      with False have "d # s = (d # pre) @ c # post \<and> c \<notin> set (d # pre) \<and>
          Index_from i (d # s) [c] = int (i + length (d # pre))"
        by simp
      then show ?thesis by blast
    qed
  qed
qed

lemma LastIndex_from_char:
  "(c \<notin> set s \<and> LastIndex_from i found s [c] = found) \<or>
   (\<exists>pre post. s = pre @ c # post \<and> c \<notin> set post \<and>
      LastIndex_from i found s [c] = int (i + length pre))"
proof (induction s arbitrary: i found)
  case Nil
  then show ?case by simp
next
  case (Cons d s)
  let ?f = "if c = d then int i else found"
  have step: "LastIndex_from i found (d # s) [c] = LastIndex_from (Suc i) ?f s [c]"
    by simp
  from Cons.IH [of "Suc i" ?f] show ?case
  proof
    assume a: "c \<notin> set s \<and> LastIndex_from (Suc i) ?f s [c] = ?f"
    show ?thesis
    proof (cases "c = d")
      case True
      with a step have "d # s = [] @ c # s \<and> c \<notin> set s \<and>
          LastIndex_from i found (d # s) [c] = int (i + length ([]::string))"
        by simp
      then show ?thesis by blast
    next
      case False
      with a step show ?thesis by simp
    qed
  next
    assume "\<exists>pre post. s = pre @ c # post \<and> c \<notin> set post \<and>
              LastIndex_from (Suc i) ?f s [c] = int (Suc i + length pre)"
    then obtain pre post where "s = pre @ c # post" "c \<notin> set post"
      "LastIndex_from (Suc i) ?f s [c] = int (Suc i + length pre)" by blast
    with step have "d # s = (d # pre) @ c # post \<and> c \<notin> set post \<and>
        LastIndex_from i found (d # s) [c] = int (i + length (d # pre))"
      by simp
    then show ?thesis by blast
  qed
qed

lemma take_Index:
  assumes "xff \<noteq> []"
  shows "\<exists>first rest. (xff = first \<or> xff = first @ '','' @ rest) \<and> CHR '','' \<notin> set first \<and>
     (if Index xff '','' \<noteq> - 1 then take (nat (Index xff '','')) xff else xff) = first"
  using Index_from_char [of "CHR '',''" xff 0]
proof
  assume "CHR '','' \<notin> set xff \<and> Index_from 0 xff '','' = - 1"
  then show ?thesis by (auto simp: Index_def)
next
  assume "\<exists>pre post. xff = pre @ CHR '','' # post \<and> CHR '','' \<notin> set pre \<and>
            Index_from 0 xff '','' = int (0 + length pre)"
  then obtain pre post where x: "xff = pre @ CHR '','' # post" and p: "CHR '','' \<notin> set pre"
    and i: "Index_from 0 xff '','' = int (length pre)" by auto
  have "Index xff '','' = int (length pre)"
    by (simp add: Index_def i)
  then have "(if Index xff '','' \<noteq> - 1 then take (nat (Index xff '','')) xff else xff) =
      take (length pre) xff"
    by simp
  also have "\<dots> = pre"
    by (simp add: x)
  finally have "(if Index xff '','' \<noteq> - 1 then take (nat (Index xff '','')) xff else xff) = pre" .
  moreover have "xff = pre @ '','' @ post" using x by simp
  ultimately show ?thesis using p by blast
qed

lemma take_LastIndex:
  "(CHR '':'' \<notin> set ip \<longrightarrow>
      (if LastIndex ip '':'' \<noteq> - 1 then take (nat (LastIndex ip '':'')) ip else ip) = ip) \<and>
   (CHR '':'' \<in> set ip \<longrightarrow>
      (\<exists>port. ip = (if LastIndex ip '':'' \<noteq> - 1 then take (nat (LastIndex ip '':'')) ip else ip)
                    @ '':'' @ port \<and> CHR '':'' \<notin> set port))"
  using LastIndex_from_char [of "CHR '':''" ip 0 "- 1"]
proof
  assume "CHR '':'' \<notin> set ip \<and> LastIndex_from 0 (- 1) ip '':'' = - 1"
  then show ?thesis by (simp add: LastIndex_def)
next
  assume "\<exists>pre post. ip = pre @ CHR '':'' # post \<and> CHR '':'' \<notin> set post \<and>
            LastIndex_from 0 (- 1) ip '':'' = int (0 + length pre)"
  then obtain pre post where x: "ip = pre @ CHR '':'' # post" and p: "CHR '':'' \<notin> set post"
    and i: "LastIndex_from 0 (- 1) ip '':'' = int (length pre)" by auto
  have "LastIndex ip '':'' = int (length pre)"
    by (simp add: LastIndex_def i)
  then have "(if LastIndex ip '':'' \<noteq> - 1 then take (nat (LastIndex ip '':'')) ip else ip) =
      take (length pre) ip"
    by simp
  also have "\<dots> = pre"
    by (simp add: x)
  finally have t: "(if LastIndex ip '':'' \<noteq> - 1 then take (nat (LastIndex ip '':'')) ip else ip) = pre" .
  have "ip = pre @ '':'' @ post" using x by simp
  with t p x show ?thesis by auto
qed

text \<open>
  C9. \<open>getClientIP\<close> follows a fixed precedence. A non-empty \<open>X-Forwarded-For\<close> wins:
  the result is \<open>TrimSpace\<close> of its first comma-separated entry (the whole value when it
  has no comma). Otherwise a non-empty \<open>X-Real-IP\<close> is returned as it is, otherwise a
  non-empty \<open>CF-Connecting-IP\<close>, and otherwise the peer address \<open>RemoteAddr\<close> cut before
  its last colon, that is without the colon and the port after it (the whole address when
  it holds no colon).
\<close>

theorem getClientIP_precedence:
  "(Header_Get (ReqHeader r) ''X-Forwarded-For'' \<noteq> [] \<longrightarrow>
      (\<exists>first rest.
         (Header_Get (ReqHeader r) ''X-Forwarded-For'' = first \<or>
          Header_Get (ReqHeader r) ''X-Forwarded-For'' = first @ '','' @ rest) \<and>
         CHR '','' \<notin> set first \<and> getClientIP r = TrimSpace first)) \<and>
   (Header_Get (ReqHeader r) ''X-Forwarded-For'' = [] \<and>
    Header_Get (ReqHeader r) ''X-Real-IP'' \<noteq> [] \<longrightarrow>
      getClientIP r = Header_Get (ReqHeader r) ''X-Real-IP'') \<and>
   (Header_Get (ReqHeader r) ''X-Forwarded-For'' = [] \<and>
    Header_Get (ReqHeader r) ''X-Real-IP'' = [] \<and>
    Header_Get (ReqHeader r) ''CF-Connecting-IP'' \<noteq> [] \<longrightarrow>
      getClientIP r = Header_Get (ReqHeader r) ''CF-Connecting-IP'') \<and>
   (Header_Get (ReqHeader r) ''X-Forwarded-For'' = [] \<and>
    Header_Get (ReqHeader r) ''X-Real-IP'' = [] \<and>
    Header_Get (ReqHeader r) ''CF-Connecting-IP'' = [] \<longrightarrow>
      (CHR '':'' \<notin> set (RemoteAddr r) \<longrightarrow> getClientIP r = RemoteAddr r) \<and>
      (CHR '':'' \<in> set (RemoteAddr r) \<longrightarrow>
         (\<exists>port. RemoteAddr r = getClientIP r @ '':'' @ port \<and> CHR '':'' \<notin> set port)))"
proof -
  let ?xff = "Header_Get (ReqHeader r) ''X-Forwarded-For''"
  have a: "?xff \<noteq> [] \<longrightarrow>
      (\<exists>first rest. (?xff = first \<or> ?xff = first @ '','' @ rest) \<and>
         CHR '','' \<notin> set first \<and> getClientIP r = TrimSpace first)"
  proof
    assume ne: "?xff \<noteq> []"
    from take_Index [OF ne] obtain first rest where
      f: "?xff = first \<or> ?xff = first @ '','' @ rest" and c: "CHR '','' \<notin> set first"
      and t: "(if Index ?xff '','' \<noteq> - 1 then take (nat (Index ?xff '','')) ?xff else ?xff) = first"
      by blast
    have "getClientIP r = TrimSpace first"
      using ne t by (auto simp: getClientIP_def Let_def split: if_splits)
    with f c show "\<exists>first rest. (?xff = first \<or> ?xff = first @ '','' @ rest) \<and>
         CHR '','' \<notin> set first \<and> getClientIP r = TrimSpace first"
      by blast
  qed
  have b: "?xff = [] \<and> Header_Get (ReqHeader r) ''X-Real-IP'' \<noteq> [] \<longrightarrow>
      getClientIP r = Header_Get (ReqHeader r) ''X-Real-IP''"
    by (simp add: getClientIP_def)
  have c: "?xff = [] \<and> Header_Get (ReqHeader r) ''X-Real-IP'' = [] \<and>
    Header_Get (ReqHeader r) ''CF-Connecting-IP'' \<noteq> [] \<longrightarrow>
      getClientIP r = Header_Get (ReqHeader r) ''CF-Connecting-IP''"
    by (simp add: getClientIP_def)
  have d: "?xff = [] \<and> Header_Get (ReqHeader r) ''X-Real-IP'' = [] \<and>
    Header_Get (ReqHeader r) ''CF-Connecting-IP'' = [] \<longrightarrow>
      (CHR '':'' \<notin> set (RemoteAddr r) \<longrightarrow> getClientIP r = RemoteAddr r) \<and>
      (CHR '':'' \<in> set (RemoteAddr r) \<longrightarrow>
         (\<exists>port. RemoteAddr r = getClientIP r @ '':'' @ port \<and> CHR '':'' \<notin> set port))"
  proof
    assume e: "?xff = [] \<and> Header_Get (ReqHeader r) ''X-Real-IP'' = [] \<and>
      Header_Get (ReqHeader r) ''CF-Connecting-IP'' = []"
    then have g: "getClientIP r =
        (if LastIndex (RemoteAddr r) '':'' \<noteq> - 1
         then take (nat (LastIndex (RemoteAddr r) '':'')) (RemoteAddr r) else RemoteAddr r)"
      by (simp add: getClientIP_def Let_def)
    show "(CHR '':'' \<notin> set (RemoteAddr r) \<longrightarrow> getClientIP r = RemoteAddr r) \<and>
      (CHR '':'' \<in> set (RemoteAddr r) \<longrightarrow>
         (\<exists>port. RemoteAddr r = getClientIP r @ '':'' @ port \<and> CHR '':'' \<notin> set port))"
      unfolding g by (rule take_LastIndex)
  qed
  from a b c d show ?thesis by blast
qed

lemma sample_getClientIP:
  "getClientIP (sample_request [(''X-Forwarded-For'', ''203.0.113.7, 10.0.0.1''),
      (''X-Real-IP'', ''198.51.100.2'')] ''192.0.2.1:54321'') = ''203.0.113.7''"
  "getClientIP (sample_request [(''X-Forwarded-For'', '' 203.0.113.7 '')] ''192.0.2.1:54321'') =
     ''203.0.113.7''"
  "getClientIP (sample_request [(''X-Real-IP'', ''198.51.100.2''),
      (''CF-Connecting-IP'', ''198.51.100.3'')] ''192.0.2.1:54321'') = ''198.51.100.2''"
  "getClientIP (sample_request [(''CF-Connecting-IP'', ''198.51.100.3'')] ''192.0.2.1:54321'') =
     ''198.51.100.3''"
  "getClientIP (sample_request [] ''192.0.2.1:54321'') = ''192.0.2.1''"
  "getClientIP (sample_request [] ''[::1]:8080'') = ''[::1]''"
  "getClientIP (sample_request [] ''localhost'') = ''localhost''"
  by code_simp+


theorem getClientIP_precedence_witness:
  "(\<exists>first rest.
      (''203.0.113.7, 10.0.0.1'' = first \<or> ''203.0.113.7, 10.0.0.1'' = first @ '','' @ rest) \<and>
      CHR '','' \<notin> set first \<and>
      getClientIP (sample_request [(''X-Forwarded-For'', ''203.0.113.7, 10.0.0.1''),
        (''X-Real-IP'', ''198.51.100.2'')] ''192.0.2.1:54321'') = TrimSpace first) \<and>
   getClientIP (sample_request [(''X-Forwarded-For'', ''203.0.113.7, 10.0.0.1''),
        (''X-Real-IP'', ''198.51.100.2'')] ''192.0.2.1:54321'') = ''203.0.113.7'' \<and>
   getClientIP (sample_request [(''X-Real-IP'', ''198.51.100.2''),
      (''CF-Connecting-IP'', ''198.51.100.3'')] ''192.0.2.1:54321'') = ''198.51.100.2'' \<and>
   getClientIP (sample_request [(''CF-Connecting-IP'', ''198.51.100.3'')] ''192.0.2.1:54321'') =
     ''198.51.100.3'' \<and>
   (\<exists>port. ''192.0.2.1:54321'' = getClientIP (sample_request [] ''192.0.2.1:54321'') @ '':'' @ port \<and>
      CHR '':'' \<notin> set port) \<and>
   getClientIP (sample_request [] ''192.0.2.1:54321'') = ''192.0.2.1'' \<and>
   getClientIP (sample_request [] ''localhost'') = ''localhost''"
proof -
  note a = getClientIP_precedence [of "sample_request [(''X-Forwarded-For'', ''203.0.113.7, 10.0.0.1''),
        (''X-Real-IP'', ''198.51.100.2'')] ''192.0.2.1:54321''"]
  note b = getClientIP_precedence [of "sample_request [(''X-Real-IP'', ''198.51.100.2''),
      (''CF-Connecting-IP'', ''198.51.100.3'')] ''192.0.2.1:54321''"]
  note c = getClientIP_precedence [of "sample_request [(''CF-Connecting-IP'', ''198.51.100.3'')]
      ''192.0.2.1:54321''"]
  note d = getClientIP_precedence [of "sample_request [] ''192.0.2.1:54321''"]
  note e = getClientIP_precedence [of "sample_request [] ''localhost''"]
  have 1: "\<exists>first rest.
      (''203.0.113.7, 10.0.0.1'' = first \<or> ''203.0.113.7, 10.0.0.1'' = first @ '','' @ rest) \<and>
      CHR '','' \<notin> set first \<and>
      getClientIP (sample_request [(''X-Forwarded-For'', ''203.0.113.7, 10.0.0.1''),
        (''X-Real-IP'', ''198.51.100.2'')] ''192.0.2.1:54321'') = TrimSpace first"
    using a by (simp add: sample_request_def Header_Get_def)
  have 2: "getClientIP (sample_request [(''X-Real-IP'', ''198.51.100.2''),
      (''CF-Connecting-IP'', ''198.51.100.3'')] ''192.0.2.1:54321'') = ''198.51.100.2''"
    using b by (simp add: sample_request_def Header_Get_def)
  have 3: "getClientIP (sample_request [(''CF-Connecting-IP'', ''198.51.100.3'')] ''192.0.2.1:54321'') =
     ''198.51.100.3''"
    using c by (simp add: sample_request_def Header_Get_def)
  have 4: "\<exists>port. ''192.0.2.1:54321'' = getClientIP (sample_request [] ''192.0.2.1:54321'') @ '':'' @ port \<and>
      CHR '':'' \<notin> set port"
    using d by (simp add: sample_request_def Header_Get_def)
  have 5: "getClientIP (sample_request [] ''localhost'') = ''localhost''"
    using e by (simp add: sample_request_def Header_Get_def)
  show ?thesis
    using 1 2 3 4 5 sample_getClientIP(1,5) by blast
qed

section \<open>The generic client: the default website ID\<close>

lemma those_nth:
  "those xs = Some ys \<Longrightarrow> length ys = length xs \<and> (\<forall>i < length xs. xs ! i = Some (ys ! i))"
proof (induction xs arbitrary: ys)
  case Nil
  then show ?case by simp
next
  case (Cons x xs)
  then obtain y ys' where x: "x = Some y" and t: "those xs = Some ys'" and ys: "ys = y # ys'"
    by (auto split: option.splits)
  from Cons.IH [OF t] show ?case
    by (auto simp: x ys nth_Cons split: nat.splits)
qed

lemma marshal_event_map:
  assumes "marshal_value mt (VMap
      [(''event'', a), (''properties'', b), (''userId'', c), (''anonymousId'', d),
       (''timestamp'', e), (''website_id'', VString wid)]) = Some j"
  shows "json_member ''website_id'' j = Some (JString wid)"
  using assms by (auto simp: json_member_def split: option.splits)

lemma marshal_slice:
  assumes "marshal_value mt (VSlice ms) = Some j"
  shows "\<exists>js. j = JArray js \<and> length js = length ms \<and>
     (\<forall>i < length ms. marshal_value mt (ms ! i) = Some (js ! i))"
proof -
  from assms obtain js where t: "those (map (marshal_value mt) ms) = Some js" and j: "j = JArray js"
    by auto
  from those_nth [OF t] show ?thesis
    by (auto simp: j)
qed


lemma batch_loop_length: "length (batch_loop w config k events) = length events"
  by (induction events arbitrary: k) (simp_all add: Let_def)

lemma batch_loop_nth:
  "i < length events \<Longrightarrow>
   \<exists>a b c d e. batch_loop w config k events ! i =
     VMap [(''event'', a), (''properties'', b), (''userId'', c), (''anonymousId'', d),
           (''timestamp'', e),
           (''website_id'', VString (if ce_WebsiteID (events ! i) = [] then cfg_APIKey config
                                     else ce_WebsiteID (events ! i)))]"
proof (induction events arbitrary: k i)
  case Nil
  then show ?case by simp
next
  case (Cons ev events)
  show ?case
  proof (cases i)
    case 0
    then show ?thesis by (simp add: Let_def)
  next
    case (Suc n)
    with Cons.prems have n: "n < length events" by simp
    have "batch_loop w config k (ev # events) ! i =
        batch_loop w config (if time_IsZero w (ce_Timestamp ev) then Suc k else k) events ! n"
      by (simp add: Suc Let_def)
    moreover have "(ev # events) ! i = events ! n"
      by (simp add: Suc)
    ultimately show ?thesis
      using Cons.IH [OF n, of "if time_IsZero w (ce_Timestamp ev) then Suc k else k"]
      by (simp only:)
  qed
qed


lemma ce_WebsiteID_default:
  "ce_WebsiteID
     (if ce_WebsiteID (if z then ev\<lparr>ce_Timestamp := t\<rparr> else ev) = []
      then (if z then ev\<lparr>ce_Timestamp := t\<rparr> else ev)\<lparr>ce_WebsiteID := k\<rparr>
      else (if z then ev\<lparr>ce_Timestamp := t\<rparr> else ev)) =
   (if ce_WebsiteID ev = [] then k else ce_WebsiteID ev)"
  by simp

lemma client_Track_effects:
  "\<exists>a b c d e.
     marshalled (snd (client_TrackWithContext w config ev)) =
       [VMap [(''event'', a), (''properties'', b), (''userId'', c), (''anonymousId'', d),
              (''timestamp'', e),
              (''website_id'', VString (if ce_WebsiteID ev = [] then cfg_APIKey config
                                        else ce_WebsiteID ev))]] \<and>
     (\<forall>req \<in> set (sent (snd (client_TrackWithContext w config ev))).
        marshal_value (time_MarshalJSON w)
          (VMap [(''event'', a), (''properties'', b), (''userId'', c), (''anonymousId'', d),
                 (''timestamp'', e),
                 (''website_id'', VString (if ce_WebsiteID ev = [] then cfg_APIKey config
                                           else ce_WebsiteID ev))]) = Some (ReqBody req))"
proof -
  define event where "event =
    (if ce_WebsiteID (if time_IsZero w (ce_Timestamp ev) then ev\<lparr>ce_Timestamp := time_Now w 0\<rparr> else ev) = []
     then (if time_IsZero w (ce_Timestamp ev) then ev\<lparr>ce_Timestamp := time_Now w 0\<rparr> else ev)
            \<lparr>ce_WebsiteID := cfg_APIKey config\<rparr>
     else (if time_IsZero w (ce_Timestamp ev) then ev\<lparr>ce_Timestamp := time_Now w 0\<rparr> else ev))"
  define payload where "payload = VMap
            [(''event'', VString (ce_Event event)),
             (''properties'', box_map (ce_Properties event)),
             (''userId'', VString (ce_UserID event)),
             (''anonymousId'', VString (ce_AnonymousID event)),
             (''timestamp'', VTime (ce_Timestamp event)),
             (''website_id'', VString (ce_WebsiteID event))]"
  have wid: "ce_WebsiteID event = (if ce_WebsiteID ev = [] then cfg_APIKey config else ce_WebsiteID ev)"
    unfolding event_def by (rule ce_WebsiteID_default)
  have m: "marshalled (snd (client_TrackWithContext w config ev)) = [payload]"
    unfolding client_TrackWithContext_def Let_def event_def [symmetric] payload_def [symmetric]
    by (simp split: option.splits sum.splits)
  have s: "\<forall>req \<in> set (sent (snd (client_TrackWithContext w config ev))).
      marshal_value (time_MarshalJSON w) payload = Some (ReqBody req)"
    unfolding client_TrackWithContext_def Let_def event_def [symmetric] payload_def [symmetric]
    by (simp split: option.splits sum.splits)
  from m s show ?thesis
    unfolding payload_def wid by blast
qed

lemma client_Batch_marshalled:
  "events \<noteq> [] \<Longrightarrow>
   marshalled (snd (client_BatchWithContext w config events)) = [VSlice (batch_loop w config 0 events)]"
  by (simp add: client_BatchWithContext_def Let_def split: option.splits sum.splits)

lemma client_Batch_sent:
  assumes "req \<in> set (sent (snd (client_BatchWithContext w config events)))"
  shows "events \<noteq> [] \<and>
     marshal_value (time_MarshalJSON w) (VSlice (batch_loop w config 0 events)) = Some (ReqBody req)"
proof (cases "events = []")
  case True
  with assms show ?thesis by (simp add: client_BatchWithContext_def)
next
  case False
  define batch where "batch = VSlice (batch_loop w config 0 events)"
  have "\<forall>req \<in> set (sent (snd (client_BatchWithContext w config events))).
      marshal_value (time_MarshalJSON w) batch = Some (ReqBody req)"
    using False
    unfolding client_BatchWithContext_def Let_def batch_def [symmetric]
    by (simp split: option.splits sum.splits)
  with assms False show ?thesis unfolding batch_def by blast
qed

text \<open>
  C8. In the generic client, the payload \<open>TrackWithContext\<close> serialises has under
  \<open>website_id\<close> the configured API key when the event's \<open>WebsiteID\<close> is empty and the
  event's own \<open>WebsiteID\<close> otherwise, and so has the body of every request it sends. For
  \<open>BatchWithContext\<close> on a non-empty list the same holds of each element of the
  serialised array, position by position.
\<close>

theorem client_website_id_default:
  fixes w :: "'t world"
  shows
  "(\<exists>kvs. marshalled (snd (client_TrackWithContext w config ev)) = [VMap kvs] \<and>
      map_of kvs ''website_id'' =
        Some (VString (if ce_WebsiteID ev = [] then cfg_APIKey config else ce_WebsiteID ev))) \<and>
   (\<forall>req \<in> set (sent (snd (client_TrackWithContext w config ev))).
      json_member ''website_id'' (ReqBody req) =
        Some (JString (if ce_WebsiteID ev = [] then cfg_APIKey config else ce_WebsiteID ev))) \<and>
   (events \<noteq> [] \<longrightarrow>
      (\<exists>ms. marshalled (snd (client_BatchWithContext w config events)) = [VSlice ms] \<and>
         length ms = length events \<and>
         (\<forall>i < length events. \<exists>kvs. ms ! i = VMap kvs \<and>
            map_of kvs ''website_id'' =
              Some (VString (if ce_WebsiteID (events ! i) = [] then cfg_APIKey config
                             else ce_WebsiteID (events ! i)))))) \<and>
   (\<forall>req \<in> set (sent (snd (client_BatchWithContext w config events))).
      \<exists>js. ReqBody req = JArray js \<and> length js = length events \<and>
        (\<forall>i < length events.
           json_member ''website_id'' (js ! i) =
             Some (JString (if ce_WebsiteID (events ! i) = [] then cfg_APIKey config
                            else ce_WebsiteID (events ! i)))))"
proof -
  let ?wid = "\<lambda>e. if ce_WebsiteID e = [] then cfg_APIKey config else ce_WebsiteID e"
  have t1: "\<exists>kvs. marshalled (snd (client_TrackWithContext w config ev)) = [VMap kvs] \<and>
      map_of kvs ''website_id'' = Some (VString (?wid ev))"
  proof -
    from client_Track_effects [of w config ev] obtain a b c d e where
      "marshalled (snd (client_TrackWithContext w config ev)) =
        [VMap [(''event'', a), (''properties'', b), (''userId'', c), (''anonymousId'', d),
               (''timestamp'', e), (''website_id'', VString (?wid ev))]]"
      by blast
    then show ?thesis by simp
  qed
  have t2: "json_member ''website_id'' (ReqBody req) = Some (JString (?wid ev))"
    if "req \<in> set (sent (snd (client_TrackWithContext w config ev)))" for req
  proof -
    from client_Track_effects [of w config ev] that obtain a b c d e where
      "marshal_value (time_MarshalJSON w)
         (VMap [(''event'', a), (''properties'', b), (''userId'', c), (''anonymousId'', d),
               (''timestamp'', e), (''website_id'', VString (?wid ev))]) = Some (ReqBody req)"
      by blast
    then show ?thesis by (rule marshal_event_map)
  qed
  have b1: "\<exists>ms. marshalled (snd (client_BatchWithContext w config events)) = [VSlice ms] \<and>
         length ms = length events \<and>
         (\<forall>i < length events. \<exists>kvs. ms ! i = VMap kvs \<and>
            map_of kvs ''website_id'' = Some (VString (?wid (events ! i))))"
    if ne: "events \<noteq> []"
  proof -
    have "\<exists>kvs. batch_loop w config 0 events ! i = VMap kvs \<and>
            map_of kvs ''website_id'' = Some (VString (?wid (events ! i)))"
      if "i < length events" for i
    proof -
      from batch_loop_nth [OF that, of w config 0] obtain a b c d e where
        "batch_loop w config 0 events ! i =
           VMap [(''event'', a), (''properties'', b), (''userId'', c), (''anonymousId'', d),
                 (''timestamp'', e), (''website_id'', VString (?wid (events ! i)))]"
        by blast
      then show ?thesis by simp
    qed
    then show ?thesis
      using client_Batch_marshalled [OF ne, of w config] batch_loop_length [of w config 0 events]
      by blast
  qed
  have b2: "\<exists>js. ReqBody req = JArray js \<and> length js = length events \<and>
        (\<forall>i < length events.
           json_member ''website_id'' (js ! i) = Some (JString (?wid (events ! i))))"
    if "req \<in> set (sent (snd (client_BatchWithContext w config events)))" for req
  proof -
    from client_Batch_sent [OF that] have
      "marshal_value (time_MarshalJSON w) (VSlice (batch_loop w config 0 events)) = Some (ReqBody req)"
      by simp
    from marshal_slice [OF this] obtain js where js: "ReqBody req = JArray js"
      and l: "length js = length events"
      and n: "\<And>i. i < length events \<Longrightarrow>
                marshal_value (time_MarshalJSON w) (batch_loop w config 0 events ! i) = Some (js ! i)"
      by (auto simp: batch_loop_length)
    have "json_member ''website_id'' (js ! i) = Some (JString (?wid (events ! i)))"
      if i: "i < length events" for i
    proof -
      from batch_loop_nth [OF i, of w config 0] obtain a b c d e where
        "batch_loop w config 0 events ! i =
           VMap [(''event'', a), (''properties'', b), (''userId'', c), (''anonymousId'', d),
                 (''timestamp'', e), (''website_id'', VString (?wid (events ! i)))]"
        by blast
      with n [OF i] show ?thesis
        by (simp only: marshal_event_map)
    qed
    with js l show ?thesis by blast
  qed
  from t1 t2 b1 b2 show ?thesis by blast
qed



theorem client_website_id_default_witness:
  "length (sent (snd (client_TrackWithContext sample_world sample_config sample_client_event))) = 1 \<and>
   json_member ''website_id''
     (ReqBody (hd (sent (snd (client_TrackWithContext sample_world sample_config
        sample_client_event))))) = Some (JString ''ent_xxx'') \<and>
   length (sent (snd (client_TrackWithContext sample_world sample_config
        (sample_client_event\<lparr>ce_WebsiteID := ''site_1''\<rparr>)))) = 1 \<and>
   json_member ''website_id''
     (ReqBody (hd (sent (snd (client_TrackWithContext sample_world sample_config
        (sample_client_event\<lparr>ce_WebsiteID := ''site_1''\<rparr>)))))) = Some (JString ''site_1'') \<and>
   length (sent (snd (client_BatchWithContext sample_world sample_config
        [sample_client_event, sample_client_event\<lparr>ce_WebsiteID := ''site_1''\<rparr>]))) = 1 \<and>
   (\<exists>js. ReqBody (hd (sent (snd (client_BatchWithContext sample_world sample_config
        [sample_client_event, sample_client_event\<lparr>ce_WebsiteID := ''site_1''\<rparr>])))) = JArray js \<and>
      length js = 2 \<and>
      json_member ''website_id'' (js ! 0) = Some (JString ''ent_xxx'') \<and>
      json_member ''website_id'' (js ! 1) = Some (JString ''site_1''))"
proof -
  let ?e1 = sample_client_event
  let ?e2 = "sample_client_event\<lparr>ce_WebsiteID := ''site_1''\<rparr>"
  have l1: "length (sent (snd (client_TrackWithContext sample_world sample_config ?e1))) = 1"
    by (simp add: client_TrackWithContext_def Let_def sample_world_def sample_config_def
        sample_client_event_def box_map_def sample_response_def)
  have l2: "length (sent (snd (client_TrackWithContext sample_world sample_config ?e2))) = 1"
    by (simp add: client_TrackWithContext_def Let_def sample_world_def sample_config_def
        sample_client_event_def box_map_def sample_response_def)
  have l3: "length (sent (snd (client_BatchWithContext sample_world sample_config [?e1, ?e2]))) = 1"
    by (simp add: client_BatchWithContext_def Let_def sample_world_def sample_config_def
        sample_client_event_def box_map_def sample_response_def)
  note a = client_website_id_default [where w = sample_world and config = sample_config
      and ev = ?e1 and events = "[?e1, ?e2]"]
  note b = client_website_id_default [where w = sample_world and config = sample_config
      and ev = ?e2 and events = "[?e1, ?e2]"]
  have 1: "json_member ''website_id''
     (ReqBody (hd (sent (snd (client_TrackWithContext sample_world sample_config ?e1))))) =
     Some (JString ''ent_xxx'')"
    using a hd_in_set_length_1 [OF l1] by (auto simp: sample_client_event_def sample_config_def)
  have 2: "json_member ''website_id''
     (ReqBody (hd (sent (snd (client_TrackWithContext sample_world sample_config ?e2))))) =
     Some (JString ''site_1'')"
    using b hd_in_set_length_1 [OF l2] by (auto simp: sample_client_event_def sample_config_def)
  from a hd_in_set_length_1 [OF l3] obtain js where
    js: "ReqBody (hd (sent (snd (client_BatchWithContext sample_world sample_config [?e1, ?e2])))) =
      JArray js"
    and n: "length js = length [?e1, ?e2]"
    and m: "\<And>i. i < length [?e1, ?e2] \<Longrightarrow>
        json_member ''website_id'' (js ! i) =
          Some (JString (if ce_WebsiteID ([?e1, ?e2] ! i) = [] then cfg_APIKey sample_config
                         else ce_WebsiteID ([?e1, ?e2] ! i)))"
    by blast
  have 3: "json_member ''website_id'' (js ! 0) = Some (JString ''ent_xxx'')"
    using m [of 0] by (simp add: sample_client_event_def sample_config_def)
  have 4: "json_member ''website_id'' (js ! 1) = Some (JString ''site_1'')"
    using m [of 1] by (simp add: sample_client_event_def sample_config_def)
  show ?thesis
    using l1 l2 l3 1 2 js n 3 4 by auto
qed

end
